theory Spec2Isabelle
  imports Main "HOL-Library.Word"
begin

chapter \<open>Entitlement-gated request handlers of the name generator\<close>

text \<open>
  A shallow embedding of four parts of the application: the PDF export route, the
  in-memory cache, the error handler and the checkout route. Each handler is a function
  of what its collaborators answer and of the state it starts from; it returns its
  response and the state it leaves.
\<close>


section \<open>PDF export route: \<^verbatim>\<open>src/app/api/generate-pdf/route.ts\<close>\<close>

text \<open>
  The handler \<^verbatim>\<open>POST\<close> (here \<open>POST_generate_pdf\<close>) talks to four collaborators:
  the session/database client (\<^verbatim>\<open>supabase\<close>), the request body parser, the PDF
  renderer and the console. What each
  of them answers is an input of the model (record \<open>pdf_io\<close>); what the handler changes
  is the state it returns (record \<open>world\<close>): the two tables, the number of renders that
  were started and the lines written with \<^verbatim>\<open>console.error\<close>. The
  \<^verbatim>\<open>console.log\<close> calls guarded by \<^verbatim>\<open>NODE_ENV === 'development'\<close> have no
  influence on the result and are left out.
\<close>

text \<open>
  The Chinese name of the request ends up in \<^verbatim>\<open>encodeURIComponent\<close>, which looks at
  the UTF-16 code units of a string; it is therefore a list of 16-bit code units. The other
  strings are only copied or compared and are lists of characters.
\<close>

type_synonym js_string = "16 word list"

text \<open>A string literal of the source, whose characters are ASCII, as code units.\<close>

definition js_literal :: "string \<Rightarrow> js_string" where
  "js_literal s = map (\<lambda>c. of_nat (of_char c)) s"

record NameData =
  chinese :: js_string
  pinyin :: string
  characters :: "(string \<times> string \<times> string \<times> string) list"
  meaning :: string
  culturalNotes :: string
  personalityMatch :: string
  style :: string

record UserData =
  englishName :: string
  gender :: string

text \<open>A field that fails the test \<^verbatim>\<open>!nameData\<close> is \<open>None\<close>.\<close>

record RequestBody =
  nameData :: "NameData option"
  userData :: "UserData option"

text \<open>Rows of \<^verbatim>\<open>customers\<close> and of \<^verbatim>\<open>credits_history\<close>.\<close>

record customer =
  cust_id :: string
  user_id :: string
  credits :: int
  updated_at :: string

record history_metadata =
  operation :: string
  chinese_name :: js_string
  english_name :: string
  credits_before :: int
  credits_after :: int
  generated_at :: string

record history_row =
  customer_id :: string
  amount :: int
  row_type :: string
  description :: string
  metadata :: history_metadata

text \<open>What a \<^verbatim>\<open>catch\<close> clause receives: an \<^verbatim>\<open>Error\<close> with its message, or anything else.\<close>

datatype thrown = ErrorObject string | NonError

record pdf_io =
  client :: "thrown option"
  auth_user :: "string option"
  auth_error :: bool
  json_body :: "thrown + RequestBody"
  available :: bool
  select_error :: bool
  render :: "thrown + string"
  update_error :: bool
  insert_error :: bool
  now_iso :: string

record world =
  customers :: "customer list"
  credits_history :: "history_row list"
  render_calls :: nat
  console_error :: "string list"

text \<open>
  The bodies the handler sends: \<^verbatim>\<open>{error}\<close>, \<^verbatim>\<open>{error, details}\<close>,
  \<^verbatim>\<open>{error, creditsRequired, currentCredits}\<close>, and the PDF buffer with the file name
  as it stands in its \<^verbatim>\<open>Content-Disposition\<close> header, after
  \<^verbatim>\<open>encodeURIComponent\<close>.
\<close>

datatype payload =
    ErrorJson string
  | ErrorDetailsJson string string
  | InsufficientJson string int int
  | PdfBytes string string

record http_response =
  status :: nat
  content_type :: string
  payload :: payload

definition json_response :: "payload \<Rightarrow> nat \<Rightarrow> http_response" where
  "json_response p s = \<lparr>status = s, content_type = ''application/json'', payload = p\<rparr>"

definition log_error :: "string \<Rightarrow> world \<Rightarrow> world" where
  "log_error line w = w\<lparr>console_error := console_error w @ [line]\<rparr>"

text \<open>\<^verbatim>\<open>e instanceof Error ? e.message : 'Unknown error'\<close>\<close>

fun error_details :: "thrown \<Rightarrow> string" where
  "error_details (ErrorObject m) = m"
| "error_details NonError = ''Unknown error''"

text \<open>\<^verbatim>\<open>a || b\<close> on numbers: \<open>0\<close> is the falsy one.\<close>

definition js_or :: "int \<Rightarrow> int \<Rightarrow> int" where
  "js_or a b = (if a = 0 then b else a)"

subsection \<open>The database client\<close>

text \<open>
  \<^verbatim>\<open>.from('customers').select('*').eq('user_id', id).single()\<close> answers
  \<^verbatim>\<open>{data, error}\<close>: the row when exactly one row matches, an error otherwise or when
  the query itself fails. The first component is \<^verbatim>\<open>error\<close> being set. The client
  reports a failure in that field, which is where the handler looks for it; it does not
  throw.
\<close>

definition select_single :: "pdf_io \<Rightarrow> world \<Rightarrow> string \<Rightarrow> bool \<times> customer option" where
  "select_single io w uid =
     (if select_error io then (True, None)
      else case filter (\<lambda>c. user_id c = uid) (customers w) of
             [c] \<Rightarrow> (False, Some c)
           | _ \<Rightarrow> (True, None))"

text \<open>
  \<^verbatim>\<open>.update({credits, updated_at}).eq('user_id', id)\<close>: a reported error leaves the
  table as it was.
\<close>

definition update_credits :: "pdf_io \<Rightarrow> world \<Rightarrow> string \<Rightarrow> int \<Rightarrow> bool \<times> world" where
  "update_credits io w uid n =
     (if update_error io then (True, w)
      else (False,
            w\<lparr>customers :=
                 map (\<lambda>c. if user_id c = uid
                           then c\<lparr>credits := n, updated_at := now_iso io\<rparr> else c)
                     (customers w)\<rparr>))"

text \<open>\<^verbatim>\<open>.from('credits_history').insert(row)\<close>; the handler does not look at its answer.\<close>

definition insert_history :: "pdf_io \<Rightarrow> world \<Rightarrow> history_row \<Rightarrow> world" where
  "insert_history io w r =
     (if insert_error io then w else w\<lparr>credits_history := credits_history w @ [r]\<rparr>)"

subsection \<open>\<^verbatim>\<open>encodeURIComponent\<close>\<close>

text \<open>
  The built-in function of the language, which the handler applies to the file name. The
  letters, the digits and \<^verbatim>\<open>- _ . ! ~ * ' ( )\<close> are kept; every other code point is
  written as the bytes of its UTF-8 encoding, each as \<^verbatim>\<open>%\<close> and two upper-case
  hexadecimal digits. A surrogate pair is one code point; a surrogate without its partner
  throws a \<^verbatim>\<open>URIError\<close>.
\<close>

definition uri_unreserved :: "nat \<Rightarrow> bool" where
  "uri_unreserved k =
     ((65 \<le> k \<and> k \<le> 90) \<or> (97 \<le> k \<and> k \<le> 122) \<or> (48 \<le> k \<and> k \<le> 57) \<or>
      k \<in> set [45, 95, 46, 33, 126, 42, 39, 40, 41])"

definition hex_digit :: "nat \<Rightarrow> char" where
  "hex_digit n = char_of (if n < 10 then 48 + n else 55 + n)"

definition percent_byte :: "nat \<Rightarrow> string" where
  "percent_byte b = [CHR ''%'', hex_digit (b div 16), hex_digit (b mod 16)]"

definition utf8_bytes :: "nat \<Rightarrow> nat list" where
  "utf8_bytes cp =
     (if cp < 0x80 then [cp]
      else if cp < 0x800 then [0xC0 + cp div 64, 0x80 + cp mod 64]
      else if cp < 0x10000 then
        [0xE0 + cp div 4096, 0x80 + (cp div 64) mod 64, 0x80 + cp mod 64]
      else
        [0xF0 + cp div 262144, 0x80 + (cp div 4096) mod 64, 0x80 + (cp div 64) mod 64,
         0x80 + cp mod 64])"

definition percent_utf8 :: "nat \<Rightarrow> string" where
  "percent_utf8 cp = concat (map percent_byte (utf8_bytes cp))"

text \<open>The output so far, followed by the output for the rest unless that throws.\<close>

definition then_append :: "string \<Rightarrow> thrown + string \<Rightarrow> thrown + string" where
  "then_append pre r = (case r of Inl t \<Rightarrow> Inl t | Inr s \<Rightarrow> Inr (pre @ s))"

fun encodeURIComponent :: "js_string \<Rightarrow> thrown + string" where
  "encodeURIComponent [] = Inr []"
| "encodeURIComponent (c # rest) =
     (let k = unat c in
      if uri_unreserved k then then_append [char_of k] (encodeURIComponent rest)
      else if 0xDC00 \<le> k \<and> k \<le> 0xDFFF then Inl (ErrorObject ''URI malformed'')
      else if 0xD800 \<le> k \<and> k \<le> 0xDBFF then
        (case rest of
           [] \<Rightarrow> Inl (ErrorObject ''URI malformed'')
         | d # rest' \<Rightarrow>
             let k2 = unat d in
             if 0xDC00 \<le> k2 \<and> k2 \<le> 0xDFFF then
               then_append
                 (percent_utf8 ((k - 0xD800) * 0x400 + (k2 - 0xDC00) + 0x10000))
                 (encodeURIComponent rest')
             else Inl (ErrorObject ''URI malformed''))
      else then_append (percent_utf8 k) (encodeURIComponent rest))"

text \<open>A string in which every surrogate is part of a pair.\<close>

fun no_lone_surrogate :: "js_string \<Rightarrow> bool" where
  "no_lone_surrogate [] = True"
| "no_lone_surrogate (c # rest) =
     (let k = unat c in
      if 0xDC00 \<le> k \<and> k \<le> 0xDFFF then False
      else if 0xD800 \<le> k \<and> k \<le> 0xDBFF then
        (case rest of
           [] \<Rightarrow> False
         | d # rest' \<Rightarrow> 0xDC00 \<le> unat d \<and> unat d \<le> 0xDFFF \<and> no_lone_surrogate rest')
      else no_lone_surrogate rest)"

subsection \<open>The renderer\<close>

text \<open>
  \<^verbatim>\<open>generateNameCertificate\<close> renders and names the file
  \<^verbatim>\<open>`${nameData.chinese}_certificate.pdf`\<close>, or throws.
\<close>

definition generateNameCertificate ::
    "pdf_io \<Rightarrow> world \<Rightarrow> NameData \<Rightarrow> UserData \<Rightarrow> (thrown + string \<times> js_string) \<times> world" where
  "generateNameCertificate io w nd ud =
     (case render io of
        Inl t \<Rightarrow> Inl t
      | Inr buffer \<Rightarrow> Inr (buffer, chinese nd @ js_literal ''_certificate.pdf''),
      w\<lparr>render_calls := Suc (render_calls w)\<rparr>)"

subsection \<open>The handler\<close>

definition history_entry :: "pdf_io \<Rightarrow> customer \<Rightarrow> NameData \<Rightarrow> UserData \<Rightarrow> history_row" where
  "history_entry io c nd ud =
     \<lparr>customer_id = cust_id c, amount = 1, row_type = ''subtract'',
      description = ''pdf_generation'',
      metadata = \<lparr>operation = ''pdf_generation'', chinese_name = chinese nd,
                  english_name = englishName ud, credits_before = credits c,
                  credits_after = credits c - 1, generated_at = now_iso io\<rparr>\<rparr>"

text \<open>Lines 116 to 156: the balance update, then the ledger row unless the update failed.\<close>

definition deduct_credits ::
    "pdf_io \<Rightarrow> world \<Rightarrow> string \<Rightarrow> customer \<Rightarrow> NameData \<Rightarrow> UserData \<Rightarrow> world" where
  "deduct_credits io w uid c nd ud =
     (case update_credits io w uid (credits c - 1) of
        (True, w') \<Rightarrow> log_error ''Failed to deduct credits:'' w'
      | (False, w') \<Rightarrow> insert_history io w' (history_entry io c nd ud))"

definition outer_catch :: "thrown \<Rightarrow> world \<Rightarrow> http_response \<times> world" where
  "outer_catch t w =
     (json_response
        (ErrorDetailsJson
           ''PDF generation service is temporarily unavailable. Please try again later.''
           (error_details t)) 500,
      log_error ''PDF generation API error:'' w)"

text \<open>
  Lines 108 to 177: the inner \<^verbatim>\<open>try\<close>, render first and charge second. The response
  is built last, still inside the \<^verbatim>\<open>try\<close>: when \<^verbatim>\<open>encodeURIComponent(fileName)\<close>
  throws there, the \<^verbatim>\<open>catch\<close> clause answers 500, after the charge.
\<close>

definition generate_and_charge ::
    "pdf_io \<Rightarrow> world \<Rightarrow> string \<Rightarrow> customer \<Rightarrow> NameData \<Rightarrow> UserData \<Rightarrow>
     http_response \<times> world" where
  "generate_and_charge io w uid c nd ud =
     (case generateNameCertificate io w nd ud of
        (Inr (pdfBuffer, fileName), w1) \<Rightarrow>
          let w2 = deduct_credits io w1 uid c nd ud in
          (case encodeURIComponent fileName of
             Inr encoded \<Rightarrow>
               (\<lparr>status = 200, content_type = ''application/pdf'',
                 payload = PdfBytes pdfBuffer encoded\<rparr>,
                w2)
           | Inl pdfError \<Rightarrow>
               (json_response
                  (ErrorDetailsJson ''Failed to generate PDF certificate. Please try again.''
                     (error_details pdfError)) 500,
                log_error ''PDF generation error:'' w2))
      | (Inl pdfError, w1) \<Rightarrow>
          (json_response
             (ErrorDetailsJson ''Failed to generate PDF certificate. Please try again.''
                (error_details pdfError)) 500,
           log_error ''PDF generation error:'' w1))"

definition POST_generate_pdf :: "pdf_io \<Rightarrow> world \<Rightarrow> http_response \<times> world" where
  "POST_generate_pdf io w =
     (case client io of
        Some t \<Rightarrow> outer_catch t w
      | None \<Rightarrow>
     (case (if auth_error io then None else auth_user io) of
        None \<Rightarrow>
          (json_response (ErrorJson ''Authentication required for PDF generation'') 401, w)
      | Some uid \<Rightarrow>
     (case json_body io of
        Inl t \<Rightarrow> outer_catch t w
      | Inr body \<Rightarrow>
     (case (nameData body, userData body) of
        (Some nd, Some ud) \<Rightarrow>
          if \<not> available io then
            (json_response
               (ErrorJson
                  ''PDF generation service is currently unavailable. Please try again later.'')
               503, w)
          else
            (case select_single io w uid of
               (True, _) \<Rightarrow>
                 (json_response (ErrorJson ''Unable to verify user credits'') 500,
                  log_error ''Error fetching customer:'' w)
             | (False, None) \<Rightarrow>
                 (json_response
                    (InsufficientJson
                       ''Insufficient credits. PDF generation requires 1 credit.'' 1 0) 403, w)
             | (False, Some c) \<Rightarrow>
                 if credits c < 1 then
                   (json_response
                      (InsufficientJson
                         ''Insufficient credits. PDF generation requires 1 credit.'' 1
                         (js_or (credits c) 0)) 403, w)
                 else generate_and_charge io w uid c nd ud)
      | _ \<Rightarrow>
          (json_response (ErrorJson ''Missing required data: nameData and userData'') 400,
           w)))))"

subsection \<open>A sample request and a sample database\<close>

definition demo_name :: NameData where
  "demo_name = \<lparr>chinese = js_literal ''Li Ming'', pinyin = ''li ming'', characters = [],
     meaning = ''bright'', culturalNotes = ''none'', personalityMatch = ''calm'',
     style = ''classic''\<rparr>"

definition demo_user :: UserData where
  "demo_user = \<lparr>englishName = ''Lee'', gender = ''male''\<rparr>"

definition demo_body :: RequestBody where
  "demo_body = \<lparr>nameData = Some demo_name, userData = Some demo_user\<rparr>"

text \<open>A name that is a single high surrogate, as the JSON text \<^verbatim>\<open>"\ud800"\<close> gives.\<close>

definition lone_surrogate_name :: NameData where
  "lone_surrogate_name = demo_name\<lparr>chinese := [0xD800]\<rparr>"

definition lone_surrogate_body :: RequestBody where
  "lone_surrogate_body = \<lparr>nameData = Some lone_surrogate_name, userData = Some demo_user\<rparr>"

text \<open>Every collaborator answers without an error.\<close>

definition demo_io :: pdf_io where
  "demo_io = \<lparr>client = None, auth_user = Some ''u1'', auth_error = False,
     json_body = Inr demo_body, available = True, select_error = False,
     render = Inr ''%PDF-1.4'', update_error = False, insert_error = False,
     now_iso = ''2025-01-01T00:00:00.000Z''\<rparr>"

definition demo_customer :: "int \<Rightarrow> customer" where
  "demo_customer n = \<lparr>cust_id = ''c1'', user_id = ''u1'', credits = n,
     updated_at = ''2024-12-31T00:00:00.000Z''\<rparr>"

definition other_customer :: customer where
  "other_customer = \<lparr>cust_id = ''c2'', user_id = ''u2'', credits = 7,
     updated_at = ''2024-12-30T00:00:00.000Z''\<rparr>"

text \<open>Two customers, the first of another user; the ledger is empty.\<close>

definition demo_world :: "int \<Rightarrow> world" where
  "demo_world n = \<lparr>customers = [other_customer, demo_customer n], credits_history = [],
     render_calls = 0, console_error = []\<rparr>"

section \<open>In-memory cache: class \<^verbatim>\<open>MemoryCache\<close>\<close>

text \<open>
  The cache is a \<^verbatim>\<open>Map\<close> from keys to entries. \<^verbatim>\<open>Date.now()\<close> is an argument of
  each operation, in milliseconds; times and lifetimes are integers. \<^verbatim>\<open>get\<close> answers
  \<^verbatim>\<open>null\<close> (here \<open>None\<close>) for a key that is absent or expired, and returns the map
  it leaves behind. The methods \<^verbatim>\<open>set\<close> and \<^verbatim>\<open>get\<close> are \<open>cache_set\<close> and
  \<open>cache_get\<close> here.
\<close>

record 'a CacheEntry =
  data :: 'a
  timestamp :: int
  ttl :: int

type_synonym 'a MemoryCache = "string \<rightharpoonup> 'a CacheEntry"

text \<open>\<^verbatim>\<open>set(key, data, ttlMs = 5 * 60 * 1000)\<close>\<close>

definition cache_set ::
    "int \<Rightarrow> string \<Rightarrow> 'a \<Rightarrow> int option \<Rightarrow> 'a MemoryCache \<Rightarrow> 'a MemoryCache" where
  "cache_set now key d ttlMs cache =
     cache(key \<mapsto> \<lparr>data = d, timestamp = now,
                     ttl = (case ttlMs of None \<Rightarrow> 5 * 60 * 1000 | Some t \<Rightarrow> t)\<rparr>)"

text \<open>\<^verbatim>\<open>get(key)\<close>\<close>

definition cache_get :: "int \<Rightarrow> string \<Rightarrow> 'a MemoryCache \<Rightarrow> 'a option \<times> 'a MemoryCache" where
  "cache_get now key cache =
     (case cache key of
        None \<Rightarrow> (None, cache)
      | Some entry \<Rightarrow>
          if now - timestamp entry > ttl entry then (None, cache(key := None))
          else (Some (data entry), cache))"

section \<open>Error handler: class \<^verbatim>\<open>ErrorHandler\<close>\<close>

subsection \<open>Strings\<close>

text \<open>
  Strings are lists of characters. \<^verbatim>\<open>toLowerCase\<close> is modelled on the letters
  \<^verbatim>\<open>A\<close> to \<^verbatim>\<open>Z\<close>; every other character is kept.
\<close>

definition lower_char :: "char \<Rightarrow> char" where
  "lower_char c =
     (let n = (of_char c :: nat) in if 65 \<le> n \<and> n \<le> 90 then char_of (n + 32) else c)"

definition toLowerCase :: "string \<Rightarrow> string" where
  "toLowerCase s = map lower_char s"

fun startsWith :: "string \<Rightarrow> string \<Rightarrow> bool" where
  "startsWith s [] = True"
| "startsWith [] (p # ps) = False"
| "startsWith (c # cs) (p # ps) = (c = p \<and> startsWith cs ps)"

text \<open>\<^verbatim>\<open>s.includes(sub)\<close>, here \<open>str_includes\<close>: \<open>sub\<close> occurs somewhere in \<open>s\<close>.\<close>

fun str_includes :: "string \<Rightarrow> string \<Rightarrow> bool" where
  "str_includes [] sub = (sub = [])"
| "str_includes (c # cs) sub = (startsWith (c # cs) sub \<or> str_includes cs sub)"

subsection \<open>Values that can be thrown\<close>

text \<open>
  A caught value is a primitive, a plain object with its properties, or an instance of
  \<^verbatim>\<open>Error\<close> with its message (a string) and the further properties set on it.
\<close>

datatype js_value =
    JUndefined
  | JNull
  | JBoolean bool
  | JNumber int
  | JString string
  | JObject "(string \<times> js_value) list"
  | JErrorObject string "(string \<times> js_value) list"

fun js_typeof :: "js_value \<Rightarrow> string" where
  "js_typeof JUndefined = ''undefined''"
| "js_typeof JNull = ''object''"
| "js_typeof (JBoolean b) = ''boolean''"
| "js_typeof (JNumber n) = ''number''"
| "js_typeof (JString s) = ''string''"
| "js_typeof (JObject ps) = ''object''"
| "js_typeof (JErrorObject m ps) = ''object''"

text \<open>Reading a property; a missing one reads \<^verbatim>\<open>undefined\<close>.\<close>

fun get_property :: "js_value \<Rightarrow> string \<Rightarrow> js_value" where
  "get_property (JObject ps) k = (case map_of ps k of Some v \<Rightarrow> v | None \<Rightarrow> JUndefined)"
| "get_property (JErrorObject m ps) k =
     (case map_of ps k of
        Some v \<Rightarrow> v
      | None \<Rightarrow> if k = ''message'' then JString m else JUndefined)"
| "get_property v k = JUndefined"

fun show_digits :: "nat \<Rightarrow> nat \<Rightarrow> string" where
  "show_digits 0 n = []"
| "show_digits (Suc fuel) n =
     (if n < 10 then [char_of (48 + n)]
      else show_digits fuel (n div 10) @ [char_of (48 + n mod 10)])"

text \<open>Decimal digits of a natural number; \<open>n\<close> has at most \<open>n + 1\<close> of them.\<close>

definition show_nat :: "nat \<Rightarrow> string" where
  "show_nat n = show_digits (Suc n) n"

text \<open>\<^verbatim>\<open>String(value)\<close>\<close>

fun js_String :: "js_value \<Rightarrow> string" where
  "js_String JUndefined = ''undefined''"
| "js_String JNull = ''null''"
| "js_String (JBoolean b) = (if b then ''true'' else ''false'')"
| "js_String (JNumber n) = (if n < 0 then ''-'' @ show_nat (nat (- n)) else show_nat (nat n))"
| "js_String (JString s) = s"
| "js_String (JObject ps) = ''[object Object]''"
| "js_String (JErrorObject m ps) = (if m = [] then ''Error'' else ''Error: '' @ m)"

subsection \<open>Application errors\<close>

datatype ErrorType =
    VALIDATION | AUTHENTICATION | AUTHORIZATION | RATE_LIMIT | PAYMENT | EXTERNAL_SERVICE
  | DATABASE | NETWORK | INTERNAL | NOT_FOUND | CONFLICT

datatype ErrorSeverity = LOW | MEDIUM | HIGH | CRITICAL

record AppError =
  err_type :: ErrorType
  severity :: ErrorSeverity
  message :: string
  userMessage :: string
  code :: "string option"
  details :: "js_value option"
  suggestions :: "string list option"
  retryable :: bool

text \<open>The \<^verbatim>\<open>options\<close> argument of \<^verbatim>\<open>createError\<close>; an absent field is \<open>None\<close>.\<close>

record ErrorOptions =
  opt_code :: "string option"
  opt_details :: "js_value option"
  opt_suggestions :: "string list option"
  opt_retryable :: "bool option"
  opt_severity :: "ErrorSeverity option"

definition no_options :: ErrorOptions where
  "no_options = \<lparr>opt_code = None, opt_details = None, opt_suggestions = None,
     opt_retryable = None, opt_severity = None\<rparr>"

fun getDefaultSeverity :: "ErrorType \<Rightarrow> ErrorSeverity" where
  "getDefaultSeverity VALIDATION = LOW"
| "getDefaultSeverity RATE_LIMIT = MEDIUM"
| "getDefaultSeverity NETWORK = MEDIUM"
| "getDefaultSeverity EXTERNAL_SERVICE = MEDIUM"
| "getDefaultSeverity AUTHENTICATION = HIGH"
| "getDefaultSeverity AUTHORIZATION = HIGH"
| "getDefaultSeverity PAYMENT = HIGH"
| "getDefaultSeverity DATABASE = HIGH"
| "getDefaultSeverity _ = CRITICAL"

fun getDefaultRetryable :: "ErrorType \<Rightarrow> bool" where
  "getDefaultRetryable VALIDATION = False"
| "getDefaultRetryable AUTHENTICATION = False"
| "getDefaultRetryable AUTHORIZATION = False"
| "getDefaultRetryable _ = True"

text \<open>
  \<^verbatim>\<open>createError(type, userMessage, technicalMessage?, options = {})\<close>. The technical
  message replaces the user message unless it is absent or empty
  (\<^verbatim>\<open>technicalMessage || userMessage\<close>).
\<close>

definition createError ::
    "ErrorType \<Rightarrow> string \<Rightarrow> string option \<Rightarrow> ErrorOptions \<Rightarrow> AppError" where
  "createError ty um tm options =
     \<lparr>err_type = ty,
      severity = (case opt_severity options of Some s \<Rightarrow> s | None \<Rightarrow> getDefaultSeverity ty),
      message = (case tm of None \<Rightarrow> um | Some t \<Rightarrow> if t = [] then um else t),
      userMessage = um,
      code = opt_code options,
      details = opt_details options,
      suggestions = opt_suggestions options,
      retryable = (case opt_retryable options of Some r \<Rightarrow> r | None \<Rightarrow> getDefaultRetryable ty)\<rparr>"

definition isAppError :: "js_value \<Rightarrow> bool" where
  "isAppError error =
     (if js_typeof error \<noteq> ''object'' \<or> error = JNull then False
      else js_typeof (get_property error ''type'') = ''string'' \<and>
           js_typeof (get_property error ''userMessage'') = ''string'')"

text \<open>\<^verbatim>\<open>classifyError(error, context?)\<close>, on the message of the error.\<close>

definition classifyError :: "string \<Rightarrow> string option \<Rightarrow> AppError" where
  "classifyError error_message context =
     (let message = toLowerCase error_message;
          contextLower = (case context of None \<Rightarrow> [] | Some c \<Rightarrow> toLowerCase c)
      in
      if str_includes message ''unauthorized'' \<or> str_includes message ''authentication'' \<or>
         str_includes message ''invalid token'' \<or> str_includes message ''jwt'' then
        createError AUTHENTICATION ''Please sign in to continue.'' (Some error_message)
          (no_options\<lparr>opt_code := Some ''AUTH_REQUIRED'',
             opt_suggestions :=
               Some [''Sign in to your account'', ''Check if your session has expired''],
             opt_retryable := Some False\<rparr>)
      else if str_includes message ''forbidden'' \<or> str_includes message ''access denied'' \<or>
         str_includes message ''insufficient permissions'' then
        createError AUTHORIZATION ''You don't have permission to perform this action.''
          (Some error_message)
          (no_options\<lparr>opt_code := Some ''ACCESS_DENIED'', opt_retryable := Some False\<rparr>)
      else if str_includes message ''rate limit'' \<or> str_includes message ''too many requests'' \<or>
         str_includes message ''quota exceeded'' then
        createError RATE_LIMIT
          ''You've made too many requests. Please wait a moment before trying again.''
          (Some error_message)
          (no_options\<lparr>opt_code := Some ''RATE_LIMIT_EXCEEDED'',
             opt_suggestions :=
               Some [''Wait a few minutes before trying again'',
                     ''Consider upgrading your plan for higher limits''],
             opt_retryable := Some True, opt_severity := Some MEDIUM\<rparr>)
      else if str_includes contextLower ''payment'' \<or> str_includes contextLower ''checkout'' \<or>
         str_includes message ''payment'' \<or> str_includes message ''billing'' \<or>
         str_includes message ''creem'' then
        createError PAYMENT
          ''Payment processing failed. Please check your payment details and try again.''
          (Some error_message)
          (no_options\<lparr>opt_code := Some ''PAYMENT_FAILED'',
             opt_suggestions :=
               Some [''Check your payment method details'',
                     ''Ensure you have sufficient funds'',
                     ''Try a different payment method''],
             opt_retryable := Some True, opt_severity := Some HIGH\<rparr>)
      else if str_includes message ''validation'' \<or> str_includes message ''invalid'' \<or>
         str_includes message ''required'' \<or> str_includes message ''bad request'' then
        createError VALIDATION ''Please check your input and try again.'' (Some error_message)
          (no_options\<lparr>opt_code := Some ''VALIDATION_ERROR'',
             opt_suggestions :=
               Some [''Double-check all form fields'',
                     ''Ensure all required fields are filled'',
                     ''Check for any invalid characters''],
             opt_retryable := Some False, opt_severity := Some LOW\<rparr>)
      else if str_includes message ''network'' \<or> str_includes message ''fetch'' \<or>
         str_includes message ''connection'' \<or> str_includes message ''timeout'' then
        createError NETWORK
          ''Connection problem. Please check your internet connection and try again.''
          (Some error_message)
          (no_options\<lparr>opt_code := Some ''NETWORK_ERROR'',
             opt_suggestions :=
               Some [''Check your internet connection'', ''Try refreshing the page'',
                     ''Wait a moment and try again''],
             opt_retryable := Some True, opt_severity := Some MEDIUM\<rparr>)
      else if str_includes contextLower ''database'' \<or> str_includes contextLower ''supabase'' \<or>
         str_includes message ''database'' \<or> str_includes message ''constraint'' \<or>
         str_includes message ''duplicate'' then
        createError DATABASE ''Data storage error. Please try again.'' (Some error_message)
          (no_options\<lparr>opt_code := Some ''DATABASE_ERROR'', opt_retryable := Some True,
             opt_severity := Some HIGH\<rparr>)
      else if str_includes contextLower ''openai'' \<or> str_includes contextLower ''generation'' \<or>
         str_includes message ''openai'' \<or> str_includes message ''ai'' \<or> str_includes message ''api'' then
        createError EXTERNAL_SERVICE
          ''AI service is temporarily unavailable. Please try again in a few moments.''
          (Some error_message)
          (no_options\<lparr>opt_code := Some ''EXTERNAL_SERVICE_ERROR'',
             opt_suggestions :=
               Some [''Wait a few minutes and try again'', ''Try refreshing the page'',
                     ''Contact support if the problem persists''],
             opt_retryable := Some True, opt_severity := Some MEDIUM\<rparr>)
      else
        createError INTERNAL ''Something went wrong. Please try again.'' (Some error_message)
          (no_options\<lparr>opt_severity := Some HIGH, opt_retryable := Some True,
             opt_suggestions :=
               Some [''Refresh the page and try again'',
                     ''Contact support if the problem persists'']\<rparr>))"

text \<open>
  \<^verbatim>\<open>handleError(error, context?)\<close> returns either the very value it was given or an
  error it has built.
\<close>

datatype handle_result = PassedThrough js_value | Created AppError

definition handleError :: "js_value \<Rightarrow> string option \<Rightarrow> handle_result" where
  "handleError error context =
     (if isAppError error then PassedThrough error
      else case error of
        JErrorObject m ps \<Rightarrow> Created (classifyError m context)
      | _ \<Rightarrow>
          Created
            (createError INTERNAL ''An unexpected error occurred. Please try again.''
               (Some (''Unknown error: '' @ js_String error))
               (no_options\<lparr>opt_severity := Some HIGH, opt_retryable := Some True,
                  opt_suggestions :=
                    Some [''Refresh the page and try again'',
                          ''Check your internet connection'']\<rparr>)))"

subsection \<open>The classification policy as a rule table\<close>

text \<open>
  The policy in the words of the specification: an ordered list of pairs of a test on the
  lowercased message and context, and the kind it stands for; the first pair whose test
  holds decides.
\<close>

type_synonym rule = "(string \<Rightarrow> string \<Rightarrow> bool) \<times> ErrorType"

definition any_of :: "string \<Rightarrow> string list \<Rightarrow> bool" where
  "any_of s subs = list_ex (str_includes s) subs"

definition classification_rules :: "rule list" where
  "classification_rules =
     [(\<lambda>m c. any_of m [''unauthorized'', ''authentication'', ''invalid token'', ''jwt''],
       AUTHENTICATION),
      (\<lambda>m c. any_of m [''forbidden'', ''access denied'', ''insufficient permissions''],
       AUTHORIZATION),
      (\<lambda>m c. any_of m [''rate limit'', ''too many requests'', ''quota exceeded''],
       RATE_LIMIT),
      (\<lambda>m c. any_of c [''payment'', ''checkout''] \<or>
              any_of m [''payment'', ''billing'', ''creem''],
       PAYMENT),
      (\<lambda>m c. any_of m [''validation'', ''invalid'', ''required'', ''bad request''],
       VALIDATION),
      (\<lambda>m c. any_of m [''network'', ''fetch'', ''connection'', ''timeout''],
       NETWORK),
      (\<lambda>m c. any_of c [''database'', ''supabase''] \<or>
              any_of m [''database'', ''constraint'', ''duplicate''],
       DATABASE),
      (\<lambda>m c. any_of c [''openai'', ''generation''] \<or> any_of m [''openai'', ''ai'', ''api''],
       EXTERNAL_SERVICE)]"

fun first_match :: "rule list \<Rightarrow> string \<Rightarrow> string \<Rightarrow> ErrorType option" where
  "first_match [] m c = None"
| "first_match ((p, k) # rs) m c = (if p m c then Some k else first_match rs m c)"

section \<open>Checkout route: \<^verbatim>\<open>src/app/api/creem/create-checkout/route.ts\<close>\<close>

subsection \<open>Product tiers: \<^verbatim>\<open>src/config/subscriptions.ts\<close>\<close>

record ProductTier =
  tier_name :: string
  tier_id :: string
  productId :: string
  priceMonthly :: string
  tier_description :: string
  creditAmount :: "int option"
  features :: "string list"
  featured :: bool
  discountCode :: string

text \<open>The variables of \<^verbatim>\<open>process.env\<close> that the configuration and the route read.\<close>

record process_env =
  CREEM_STARTER_PRODUCT_ID :: "string option"
  CREEM_BUSINESS_PRODUCT_ID :: "string option"
  CREEM_ENTERPRISE_PRODUCT_ID :: "string option"
  CREEM_BASIC_CREDITS_ID :: "string option"
  CREEM_STANDARD_CREDITS_ID :: "string option"
  CREEM_PREMIUM_CREDITS_ID :: "string option"
  CREEM_API_URL :: "string option"
  CREEM_API_KEY :: "string option"

text \<open>\<^verbatim>\<open>process.env.X || "default"\<close>: an unset or empty variable gives the default.\<close>

definition env_or :: "string option \<Rightarrow> string \<Rightarrow> string" where
  "env_or v d = (case v of None \<Rightarrow> d | Some s \<Rightarrow> if s = [] then d else s)"

definition SUBSCRIPTION_TIERS :: "process_env \<Rightarrow> ProductTier list" where
  "SUBSCRIPTION_TIERS env =
     [\<lparr>tier_name = ''Starter'', tier_id = ''tier-hobby'',
       productId = env_or (CREEM_STARTER_PRODUCT_ID env) ''prod_starter_monthly'',
       priceMonthly = ''$11'',
       tier_description = ''Perfect for individuals wanting to explore Chinese names.'',
       creditAmount = None,
       features = [''10 Chinese name generations per month'',
                   ''Basic personality matching'',
                   ''Cultural significance explanations'',
                   ''PDF certificates'',
                   ''Email support'',
                   ''Name history tracking''],
       featured = False, discountCode = []\<rparr>,
      \<lparr>tier_name = ''Business'', tier_id = ''tier-pro'',
       productId = env_or (CREEM_BUSINESS_PRODUCT_ID env) ''prod_business_monthly'',
       priceMonthly = ''$29'',
       tier_description =
         ''Ideal for enthusiasts and professionals seeking quality Chinese names.'',
       creditAmount = None,
       features = [''Unlimited Chinese name generations'',
                   ''Advanced personality analysis'',
                   ''Deep cultural insights'',
                   ''Premium PDF certificates'',
                   ''Priority support'',
                   ''Batch generation (up to 18 names)'',
                   ''Name pronunciation audio'',
                   ''Custom name preferences''],
       featured = True, discountCode = []\<rparr>,
      \<lparr>tier_name = ''Enterprise'', tier_id = ''tier-enterprise'',
       productId = env_or (CREEM_ENTERPRISE_PRODUCT_ID env) ''prod_enterprise_monthly'',
       priceMonthly = ''$99'',
       tier_description =
         ''For organizations and cultural institutions with advanced naming needs.'',
       creditAmount = None,
       features = [''Unlimited generations with priority processing'',
                   ''AI-powered cultural consultation'',
                   ''Family name generation'',
                   ''Business name generation'',
                   ''Dedicated support'',
                   ''Custom branding options'',
                   ''API access for integrations'',
                   ''Advanced analytics dashboard''],
       featured = False, discountCode = []\<rparr>]"

definition CREDITS_TIERS :: "process_env \<Rightarrow> ProductTier list" where
  "CREDITS_TIERS env =
     [\<lparr>tier_name = ''Basic Package'', tier_id = ''tier-3-credits'',
       productId = env_or (CREEM_BASIC_CREDITS_ID env) ''prod_basic_credits'',
       priceMonthly = ''$9'',
       tier_description = ''3 credits for testing and small-scale projects.'',
       creditAmount = Some 3,
       features = [''3 premium Chinese name generations'',
                   ''No expiration date'',
                   ''Access to advanced features'',
                   ''PDF certificates'',
                   ''Email support''],
       featured = False, discountCode = []\<rparr>,
      \<lparr>tier_name = ''Standard Package'', tier_id = ''tier-6-credits'',
       productId = env_or (CREEM_STANDARD_CREDITS_ID env) ''prod_standard_credits'',
       priceMonthly = ''$13'',
       tier_description = ''6 credits for regular name generation needs.'',
       creditAmount = Some 6,
       features = [''6 premium Chinese name generations'',
                   ''No expiration date'',
                   ''Priority processing'',
                   ''Batch generation support'',
                   ''Basic email support''],
       featured = True, discountCode = []\<rparr>,
      \<lparr>tier_name = ''Premium Package'', tier_id = ''tier-9-credits'',
       productId = env_or (CREEM_PREMIUM_CREDITS_ID env) ''prod_premium_credits'',
       priceMonthly = ''$29'',
       tier_description = ''9 credits for extensive name generation and exploration.'',
       creditAmount = Some 9,
       features = [''9 premium Chinese name generations'',
                   ''No expiration date'',
                   ''Priority processing'',
                   ''Batch generation (up to 18 names)'',
                   ''Premium support'',
                   ''Advanced personality matching''],
       featured = False, discountCode = []\<rparr>]"

subsection \<open>Resolving the product\<close>

datatype ProductType = Subscription | Credits

text \<open>The body of the request; a field that is absent is \<open>None\<close>.\<close>

record CheckoutBody =
  body_productId :: "string option"
  tierId :: "string option"
  productType :: "string option"
  credits_amount :: "int option"
  quantity :: "int option"
  body_discountCode :: "string option"

definition empty_body :: CheckoutBody where
  "empty_body = \<lparr>body_productId = None, tierId = None, productType = None,
     credits_amount = None, quantity = None, body_discountCode = None\<rparr>"

record resolved =
  res_productId :: string
  res_type :: ProductType
  res_credits_amount :: "int option"

text \<open>
  The two tier lists are module constants in the source; the functions below take them
  as their first arguments. \<^verbatim>\<open>!tierId\<close> holds for an absent and for an empty string.
\<close>

definition resolveFromTierId ::
    "ProductTier list \<Rightarrow> ProductTier list \<Rightarrow> string option \<Rightarrow> resolved option" where
  "resolveFromTierId subs creds tid =
     (case tid of
        None \<Rightarrow> None
      | Some t \<Rightarrow>
          if t = [] then None
          else case find (\<lambda>x. tier_id x = t) subs of
            Some sub \<Rightarrow>
              Some \<lparr>res_productId = productId sub, res_type = Subscription,
                    res_credits_amount = None\<rparr>
          | None \<Rightarrow>
              (case find (\<lambda>x. tier_id x = t) creds of
                 Some credit \<Rightarrow>
                   Some \<lparr>res_productId = productId credit, res_type = Credits,
                         res_credits_amount = creditAmount credit\<rparr>
               | None \<Rightarrow> None))"

definition resolveFromProductId ::
    "ProductTier list \<Rightarrow> ProductTier list \<Rightarrow> string option \<Rightarrow> resolved option" where
  "resolveFromProductId subs creds pid =
     (case pid of
        None \<Rightarrow> None
      | Some p \<Rightarrow>
          if p = [] then None
          else case find (\<lambda>x. productId x = p) subs of
            Some sub \<Rightarrow>
              Some \<lparr>res_productId = productId sub, res_type = Subscription,
                    res_credits_amount = None\<rparr>
          | None \<Rightarrow>
              (case find (\<lambda>x. productId x = p) creds of
                 Some credit \<Rightarrow>
                   Some \<lparr>res_productId = productId credit, res_type = Credits,
                         res_credits_amount = creditAmount credit\<rparr>
               | None \<Rightarrow>
                   Some \<lparr>res_productId = p, res_type = Credits, res_credits_amount = None\<rparr>))"

text \<open>
  \<^verbatim>\<open>pickDefaultCreditsTier\<close>: the featured tier, otherwise \<^verbatim>\<open>CREDITS_TIERS[0]\<close>;
  reading \<^verbatim>\<open>productId\<close> of \<^verbatim>\<open>undefined\<close> throws on an empty list.
\<close>

definition pickDefaultCreditsTier :: "ProductTier list \<Rightarrow> thrown + string \<times> int option" where
  "pickDefaultCreditsTier creds =
     (case find featured creds of
        Some chosen \<Rightarrow> Inr (productId chosen, creditAmount chosen)
      | None \<Rightarrow>
          (case creds of
             [] \<Rightarrow> Inl (ErrorObject ''Cannot read properties of undefined (reading 'productId')'')
           | chosen # _ \<Rightarrow> Inr (productId chosen, creditAmount chosen)))"

subsection \<open>The handler\<close>

record checkout_user =
  co_uid :: string
  co_email :: "string option"

text \<open>The arguments of one call of \<^verbatim>\<open>createCheckoutSession\<close>.\<close>

record checkout_call =
  call_productId :: string
  call_email :: string
  call_userId :: string
  call_type :: ProductType
  call_credits_amount :: "int option"
  call_discountCode :: "string option"

text \<open>
  The collaborators of the handler: the client (which may throw), the session's user, the
  parsed body (\<open>None\<close> when parsing fails, which the handler replaces by \<^verbatim>\<open>{}\<close>) and
  \<^verbatim>\<open>createCheckoutSession\<close>, which answers a URL or throws.
\<close>

record checkout_io =
  co_client :: "thrown option"
  co_user :: "checkout_user option"
  co_body :: "CheckoutBody option"
  co_session :: "checkout_call \<Rightarrow> thrown + string"

datatype checkout_payload =
    PlainText string
  | CheckoutUrl string
  | CheckoutError string
  | CheckoutErrorDetails string string

record checkout_response =
  co_status :: nat
  co_payload :: checkout_payload

definition checkout_catch :: "thrown \<Rightarrow> checkout_call list \<Rightarrow> checkout_response \<times> checkout_call list" where
  "checkout_catch t calls =
     (\<lparr>co_status = 500,
       co_payload = CheckoutErrorDetails ''Failed to create checkout session'' (error_details t)\<rparr>,
      calls)"

text \<open>A string is truthy unless it is absent or empty.\<close>

definition truthy_string :: "string option \<Rightarrow> bool" where
  "truthy_string s = (case s of None \<Rightarrow> False | Some x \<Rightarrow> x \<noteq> [])"

text \<open>Lines 70 to 91: the product from the body, or the fallback by the hint.\<close>

definition resolve_selection :: "process_env \<Rightarrow> CheckoutBody \<Rightarrow> thrown + resolved" where
  "resolve_selection env body =
     (case resolveFromProductId (SUBSCRIPTION_TIERS env) (CREDITS_TIERS env)
             (body_productId body) of
        Some r \<Rightarrow> Inr r
      | None \<Rightarrow>
     (case resolveFromTierId (SUBSCRIPTION_TIERS env) (CREDITS_TIERS env) (tierId body) of
        Some r \<Rightarrow> Inr r
      | None \<Rightarrow>
          let hint = toLowerCase (case productType body of None \<Rightarrow> [] | Some p \<Rightarrow> p) in
          if hint = ''subscription'' then
            (case SUBSCRIPTION_TIERS env of
               [] \<Rightarrow> Inl (ErrorObject ''Cannot read properties of undefined (reading 'productId')'')
             | sub # _ \<Rightarrow>
                 Inr \<lparr>res_productId = productId sub, res_type = Subscription,
                      res_credits_amount = None\<rparr>)
          else
            (case pickDefaultCreditsTier (CREDITS_TIERS env) of
               Inl t \<Rightarrow> Inl t
             | Inr (pid, amt) \<Rightarrow>
                 Inr \<lparr>res_productId = pid, res_type = Credits,
                      res_credits_amount = amt\<rparr>)))"

text \<open>
  The handler returns its response and the calls of \<^verbatim>\<open>createCheckoutSession\<close> it has
  made. \<^verbatim>\<open>resolved.credits_amount && credits_amount == null\<close>: the amount of the tier
  is used when it is present and not \<open>0\<close> and the body gives none.
\<close>

definition POST_create_checkout ::
    "process_env \<Rightarrow> checkout_io \<Rightarrow> checkout_response \<times> checkout_call list" where
  "POST_create_checkout env io =
     (case co_client io of
        Some t \<Rightarrow> checkout_catch t []
      | None \<Rightarrow>
     (case co_user io of
        None \<Rightarrow> (\<lparr>co_status = 401, co_payload = PlainText ''Unauthorized''\<rparr>, [])
      | Some user \<Rightarrow>
          let body = (case co_body io of None \<Rightarrow> empty_body | Some b \<Rightarrow> b) in
          (case resolve_selection env body of
             Inl t \<Rightarrow> checkout_catch t []
           | Inr res \<Rightarrow>
               let final_amount =
                     (case (res_credits_amount res, credits_amount body) of
                        (Some a, None) \<Rightarrow> if a = 0 then None else Some a
                      | (_, given) \<Rightarrow> given)
               in
               if \<not> truthy_string (CREEM_API_URL env) \<or> \<not> truthy_string (CREEM_API_KEY env)
               then
                 (\<lparr>co_status = 500,
                   co_payload = CheckoutError
                     ''Missing CREEM_API_URL or CREEM_API_KEY. Please set them in your environment.''\<rparr>,
                  [])
               else
                 (case co_email user of
                    None \<Rightarrow>
                      (\<lparr>co_status = 400,
                        co_payload = CheckoutError
                          ''User email not available. Please ensure the user has a valid email.''\<rparr>,
                       [])
                  | Some address \<Rightarrow>
                      if address = [] then
                        (\<lparr>co_status = 400,
                          co_payload = CheckoutError
                            ''User email not available. Please ensure the user has a valid email.''\<rparr>,
                         [])
                      else
                        let normalizedType =
                              (if (case productType body of
                                     None \<Rightarrow> False
                                   | Some p \<Rightarrow> p \<noteq> [] \<and> str_includes (toLowerCase p) ''credit'')
                               then Credits else res_type res);
                            call = \<lparr>call_productId = res_productId res, call_email = address,
                                    call_userId = co_uid user, call_type = normalizedType,
                                    call_credits_amount = final_amount,
                                    call_discountCode = body_discountCode body\<rparr>
                        in
                        (case co_session io call of
                           Inl t \<Rightarrow> checkout_catch t [call]
                         | Inr url \<Rightarrow>
                             (\<lparr>co_status = 200, co_payload = CheckoutUrl url\<rparr>, [call]))))))"

subsection \<open>A sample environment and sample requests\<close>

definition demo_env :: process_env where
  "demo_env = \<lparr>CREEM_STARTER_PRODUCT_ID = Some ''prod_live_starter'',
     CREEM_BUSINESS_PRODUCT_ID = None, CREEM_ENTERPRISE_PRODUCT_ID = None,
     CREEM_BASIC_CREDITS_ID = None, CREEM_STANDARD_CREDITS_ID = None,
     CREEM_PREMIUM_CREDITS_ID = None,
     CREEM_API_URL = Some ''https://api.creem.io/v1'', CREEM_API_KEY = Some ''key''\<rparr>"

definition demo_checkout_io :: "CheckoutBody \<Rightarrow> checkout_io" where
  "demo_checkout_io b =
     \<lparr>co_client = None,
      co_user = Some \<lparr>co_uid = ''u1'', co_email = Some ''lee@example.com''\<rparr>,
      co_body = Some b,
      co_session = (\<lambda>c. Inr (''https://checkout.example/'' @ call_productId c))\<rparr>"

section \<open>Properties of the PDF export route\<close>

subsection \<open>How the handler decomposes\<close>

lemma filter_update_credits:
  "filter (\<lambda>c. user_id c = uid)
     (map (\<lambda>c. if user_id c = uid then c\<lparr>credits := n, updated_at := t\<rparr> else c) xs) =
   map (\<lambda>c. c\<lparr>credits := n, updated_at := t\<rparr>) (filter (\<lambda>c. user_id c = uid) xs)"
  by (induction xs) auto

lemma select_single_found:
  "select_single io w uid = (False, Some c) \<Longrightarrow>
     \<not> select_error io \<and> filter (\<lambda>x. user_id x = uid) (customers w) = [c]"
  by (simp add: select_single_def split: if_splits list.splits)

text \<open>
  A request ends before the render with the state untouched, or with one more console
  line, or it passes every check and runs the inner \<^verbatim>\<open>try\<close>.
\<close>

lemma POST_generate_pdf_shape:
  "(\<exists>r. POST_generate_pdf io w = (r, w)) \<or>
   (\<exists>r l. POST_generate_pdf io w = (r, log_error l w)) \<or>
   (\<exists>uid body nd ud c.
      client io = None \<and> \<not> auth_error io \<and> auth_user io = Some uid \<and>
      json_body io = Inr body \<and> nameData body = Some nd \<and> userData body = Some ud \<and>
      available io \<and> \<not> select_error io \<and>
      filter (\<lambda>x. user_id x = uid) (customers w) = [c] \<and> \<not> credits c < 1 \<and>
      POST_generate_pdf io w = generate_and_charge io w uid c nd ud)"
  by (auto simp add: POST_generate_pdf_def outer_catch_def dest!: select_single_found
      split: option.splits sum.splits prod.splits bool.splits if_splits)

lemma POST_generate_pdf_entitled:
  assumes "client io = None" and "\<not> auth_error io" and "auth_user io = Some uid"
    and "json_body io = Inr body" and "nameData body = Some nd" and "userData body = Some ud"
    and "available io" and "\<not> select_error io"
    and "filter (\<lambda>x. user_id x = uid) (customers w) = [c]" and "1 \<le> credits c"
  shows "POST_generate_pdf io w = generate_and_charge io w uid c nd ud"
  using assms by (simp add: POST_generate_pdf_def select_single_def)

lemma deduct_credits_render_calls:
  "render_calls (deduct_credits io w uid c nd ud) = render_calls w"
  by (simp add: deduct_credits_def update_credits_def insert_history_def log_error_def)

lemma generate_and_charge_fail:
  "render io = Inl t \<Longrightarrow>
     generate_and_charge io w uid c nd ud =
       (json_response (ErrorDetailsJson ''Failed to generate PDF certificate. Please try again.''
          (error_details t)) 500,
        log_error ''PDF generation error:'' (w\<lparr>render_calls := Suc (render_calls w)\<rparr>))"
  by (simp add: generate_and_charge_def generateNameCertificate_def)

lemma generate_and_charge_ok:
  "render io = Inr b \<Longrightarrow>
     encodeURIComponent (chinese nd @ js_literal ''_certificate.pdf'') = Inr encoded \<Longrightarrow>
     generate_and_charge io w uid c nd ud =
       (\<lparr>status = 200, content_type = ''application/pdf'', payload = PdfBytes b encoded\<rparr>,
        deduct_credits io (w\<lparr>render_calls := Suc (render_calls w)\<rparr>) uid c nd ud)"
  by (simp add: generate_and_charge_def generateNameCertificate_def)

lemma generate_and_charge_uri_error:
  "render io = Inr b \<Longrightarrow>
     encodeURIComponent (chinese nd @ js_literal ''_certificate.pdf'') = Inl t \<Longrightarrow>
     generate_and_charge io w uid c nd ud =
       (json_response (ErrorDetailsJson ''Failed to generate PDF certificate. Please try again.''
          (error_details t)) 500,
        log_error ''PDF generation error:''
          (deduct_credits io (w\<lparr>render_calls := Suc (render_calls w)\<rparr>) uid c nd ud))"
  by (simp add: generate_and_charge_def generateNameCertificate_def)

text \<open>After a successful render the state is the one the charge leaves, but for the console.\<close>

lemma generate_and_charge_rendered_state:
  assumes "render io = Inr b"
  shows "customers (snd (generate_and_charge io w uid c nd ud)) =
           customers (deduct_credits io (w\<lparr>render_calls := Suc (render_calls w)\<rparr>) uid c nd ud)"
    and "credits_history (snd (generate_and_charge io w uid c nd ud)) =
           credits_history
             (deduct_credits io (w\<lparr>render_calls := Suc (render_calls w)\<rparr>) uid c nd ud)"
    and "render_calls (snd (generate_and_charge io w uid c nd ud)) = Suc (render_calls w)"
  using assms
  by (cases "encodeURIComponent (chinese nd @ js_literal ''_certificate.pdf'')";
      simp add: generate_and_charge_ok generate_and_charge_uri_error log_error_def
        deduct_credits_render_calls)+

lemma deduct_credits_failed:
  "update_error io \<Longrightarrow>
     deduct_credits io w uid c nd ud = log_error ''Failed to deduct credits:'' w"
  by (simp add: deduct_credits_def update_credits_def)

lemma deduct_credits_done:
  "\<not> update_error io \<Longrightarrow> \<not> insert_error io \<Longrightarrow>
     deduct_credits io w uid c nd ud =
       w\<lparr>customers :=
            map (\<lambda>x. if user_id x = uid
                      then x\<lparr>credits := credits c - 1, updated_at := now_iso io\<rparr> else x)
                (customers w),
          credits_history := credits_history w @ [history_entry io c nd ud]\<rparr>"
  by (simp add: deduct_credits_def update_credits_def insert_history_def)

lemma deduct_credits_history:
  "credits_history (deduct_credits io w uid c nd ud) \<noteq> credits_history w \<Longrightarrow>
     \<not> update_error io \<and> \<not> insert_error io \<and>
     customers (deduct_credits io w uid c nd ud) =
       map (\<lambda>x. if user_id x = uid
                 then x\<lparr>credits := credits c - 1, updated_at := now_iso io\<rparr> else x)
           (customers w) \<and>
     credits_history (deduct_credits io w uid c nd ud) =
       credits_history w @ [history_entry io c nd ud]"
  by (simp add: deduct_credits_def update_credits_def insert_history_def log_error_def
      split: if_splits)

lemmas demo_defs = demo_name_def demo_user_def demo_body_def demo_io_def demo_customer_def
  other_customer_def demo_world_def

lemmas route_defs = POST_generate_pdf_def select_single_def update_credits_def
  insert_history_def generateNameCertificate_def deduct_credits_def outer_catch_def
  generate_and_charge_def json_response_def log_error_def history_entry_def js_or_def

lemmas encode_defs = Let_def uri_unreserved_def js_literal_def then_append_def percent_utf8_def
  percent_byte_def utf8_bytes_def hex_digit_def char_of_eq_iff

subsection \<open>\<^verbatim>\<open>encodeURIComponent\<close> on some names\<close>

lemma encodeURIComponent_samples:
  "encodeURIComponent (js_literal ''Li Ming'' @ js_literal ''_certificate.pdf'') =
     Inr ''Li%20Ming_certificate.pdf''"
  "encodeURIComponent ([0x674E, 0x660E] @ js_literal ''_certificate.pdf'') =
     Inr ''%E6%9D%8E%E6%98%8E_certificate.pdf''"
  "encodeURIComponent ([0xD83D, 0xDE00] @ js_literal ''a/b?c'') = Inr ''%F0%9F%98%80a%2Fb%3Fc''"
  "encodeURIComponent ([0xD800] @ js_literal ''_certificate.pdf'') =
     Inl (ErrorObject ''URI malformed'')"
  by (simp_all add: encode_defs)

lemma then_append_ok: "(\<exists>e. then_append p r = Inr e) \<longleftrightarrow> (\<exists>e. r = Inr e)"
  by (cases r) (simp_all add: then_append_def)

lemma unreserved_not_surrogate: "uri_unreserved k \<Longrightarrow> k < 0xD800"
  by (auto simp add: uri_unreserved_def)

text \<open>The function returns exactly on the strings without a lone surrogate.\<close>

lemma encodeURIComponent_returns_iff:
  "(\<exists>e. encodeURIComponent s = Inr e) \<longleftrightarrow> no_lone_surrogate s"
proof (induction s rule: encodeURIComponent.induct)
  case 1
  show ?case by simp
next
  case (2 c rest)
  show ?case
  proof (cases "uri_unreserved (unat c)")
    case True
    with 2(1) [OF refl True] unreserved_not_surrogate [OF True] show ?thesis
      by (simp add: then_append_ok Let_def)
  next
    case False
    with 2(2) [OF refl False] 2(3) [OF refl False] show ?thesis
      by (cases rest)
        (auto simp add: then_append_ok Let_def encodeURIComponent.simps(2) [of c]
          no_lone_surrogate.simps(2) [of c]
          simp del: encodeURIComponent.simps no_lone_surrogate.simps)
  qed
qed

subsection \<open>Claim C1\<close>

text \<open>
  Claim C1, as stated: for an authenticated customer with exactly 1 credit, a request whose
  render succeeds answers 200 with a PDF, leaves the credits at 0 and appends exactly one
  ledger row with amount 1 and type \<^verbatim>\<open>subtract\<close>.

  The render succeeding is not enough. In the sample below the customer has 1 credit and
  the render succeeds, but the database rejects the balance update: the answer is still
  200, the balance stays 1 and the ledger stays empty.
\<close>

theorem pdf_success_update_rejected_counterexample:
  "render (demo_io\<lparr>update_error := True\<rparr>) = Inr ''%PDF-1.4'' \<and>
   map credits (filter (\<lambda>c. user_id c = ''u1'') (customers (demo_world 1))) = [1] \<and>
   status (fst (POST_generate_pdf (demo_io\<lparr>update_error := True\<rparr>) (demo_world 1))) = 200 \<and>
   render_calls (snd (POST_generate_pdf (demo_io\<lparr>update_error := True\<rparr>) (demo_world 1))) = 1 \<and>
   map credits (filter (\<lambda>c. user_id c = ''u1'')
     (customers (snd (POST_generate_pdf (demo_io\<lparr>update_error := True\<rparr>) (demo_world 1)))))
     \<noteq> [0] \<and>
   credits_history (snd (POST_generate_pdf (demo_io\<lparr>update_error := True\<rparr>) (demo_world 1)))
     = []"
  by (simp add: demo_defs route_defs encode_defs)

text \<open>
  Claim C1, amended: for an authenticated customer with exactly 1 credit, a request whose
  render succeeds, whose file name \<^verbatim>\<open>encodeURIComponent\<close> accepts, and whose balance
  update and ledger insert are both accepted by the database answers 200 with an
  \<^verbatim>\<open>application/pdf\<close> body (the rendered buffer, under the encoded file name), leaves
  that customer's credits at 0 and appends exactly one ledger row, with amount 1 and type
  \<^verbatim>\<open>subtract\<close>. What happens for a file name that cannot be encoded is left open
  here; claim C4 has that case.
\<close>

theorem pdf_success_charges_one_credit:
  assumes "client io = None" and "\<not> auth_error io" and "auth_user io = Some uid"
    and "json_body io = Inr body" and "nameData body = Some nd" and "userData body = Some ud"
    and "available io" and "\<not> select_error io"
    and "filter (\<lambda>x. user_id x = uid) (customers w) = [c]" and "credits c = 1"
    and "render io = Inr buffer"
    and "encodeURIComponent (chinese nd @ js_literal ''_certificate.pdf'') = Inr encoded"
    and "\<not> update_error io" and "\<not> insert_error io"
  shows "status (fst (POST_generate_pdf io w)) = 200 \<and>
         content_type (fst (POST_generate_pdf io w)) = ''application/pdf'' \<and>
         payload (fst (POST_generate_pdf io w)) = PdfBytes buffer encoded \<and>
         map credits (filter (\<lambda>x. user_id x = uid)
           (customers (snd (POST_generate_pdf io w)))) = [0] \<and>
         credits_history (snd (POST_generate_pdf io w)) =
           credits_history w @ [history_entry io c nd ud] \<and>
         amount (history_entry io c nd ud) = 1 \<and>
         row_type (history_entry io c nd ud) = ''subtract''"
proof -
  have "POST_generate_pdf io w = generate_and_charge io w uid c nd ud"
    using assms by (intro POST_generate_pdf_entitled) simp_all
  with assms show ?thesis
    by (simp add: generate_and_charge_ok deduct_credits_done filter_update_credits
        history_entry_def)
qed

theorem pdf_success_charges_one_credit_witness:
  "status (fst (POST_generate_pdf demo_io (demo_world 1))) = 200 \<and>
   content_type (fst (POST_generate_pdf demo_io (demo_world 1))) = ''application/pdf'' \<and>
   payload (fst (POST_generate_pdf demo_io (demo_world 1))) =
     PdfBytes ''%PDF-1.4'' ''Li%20Ming_certificate.pdf'' \<and>
   map credits (filter (\<lambda>x. user_id x = ''u1'')
     (customers (snd (POST_generate_pdf demo_io (demo_world 1))))) = [0] \<and>
   credits_history (snd (POST_generate_pdf demo_io (demo_world 1))) =
     [history_entry demo_io (demo_customer 1) demo_name demo_user]"
proof -
  have sel: "filter (\<lambda>x. user_id x = ''u1'') (customers (demo_world 1)) = [demo_customer 1]"
    by (simp add: demo_defs)
  show ?thesis
    using pdf_success_charges_one_credit [of demo_io "''u1''" demo_body demo_name demo_user
        "demo_world 1" "demo_customer 1" "''%PDF-1.4''" "''Li%20Ming_certificate.pdf''",
        OF _ _ _ _ _ _ _ _ sel]
    by (simp add: demo_defs encodeURIComponent_samples)
qed

subsection \<open>Claim C2\<close>

text \<open>
  Claim C2, as stated: for every authenticated customer with less than 1 credit, a request
  answers 403 with \<^verbatim>\<open>creditsRequired = 1\<close> and \<^verbatim>\<open>currentCredits\<close> the balance, no
  render is attempted and no ledger row is appended.

  The handler tests the body and the availability of the renderer before it reads the
  balance. In the sample below the customer has 0 credits and the renderer is reported
  unavailable: the answer is 503, not 403.
\<close>

theorem pdf_insufficient_unavailable_counterexample:
  "auth_user (demo_io\<lparr>available := False\<rparr>) = Some ''u1'' \<and>
   map credits (filter (\<lambda>x. user_id x = ''u1'') (customers (demo_world 0))) = [0] \<and>
   status (fst (POST_generate_pdf (demo_io\<lparr>available := False\<rparr>) (demo_world 0))) = 503 \<and>
   status (fst (POST_generate_pdf (demo_io\<lparr>available := False\<rparr>) (demo_world 0))) \<noteq> 403"
  by (simp add: demo_defs route_defs)

text \<open>
  Claim C2, amended: for every authenticated customer with less than 1 credit, a request
  that carries \<^verbatim>\<open>nameData\<close> and \<^verbatim>\<open>userData\<close>, made while the renderer is available
  and the customer's row is read without error, answers 403 with
  \<^verbatim>\<open>creditsRequired = 1\<close> and \<^verbatim>\<open>currentCredits\<close> equal to the balance; nothing is
  rendered, written or logged (the state is returned as it was).
\<close>

theorem pdf_insufficient_credits_denied:
  assumes "client io = None" and "\<not> auth_error io" and "auth_user io = Some uid"
    and "json_body io = Inr body" and "nameData body = Some nd" and "userData body = Some ud"
    and "available io" and "\<not> select_error io"
    and "filter (\<lambda>x. user_id x = uid) (customers w) = [c]" and "credits c < 1"
  shows "status (fst (POST_generate_pdf io w)) = 403 \<and>
         payload (fst (POST_generate_pdf io w)) =
           InsufficientJson ''Insufficient credits. PDF generation requires 1 credit.'' 1
             (credits c) \<and>
         snd (POST_generate_pdf io w) = w"
  using assms
  by (simp add: POST_generate_pdf_def select_single_def json_response_def js_or_def)

theorem pdf_insufficient_credits_denied_witness:
  "status (fst (POST_generate_pdf demo_io (demo_world 0))) = 403 \<and>
   payload (fst (POST_generate_pdf demo_io (demo_world 0))) =
     InsufficientJson ''Insufficient credits. PDF generation requires 1 credit.'' 1 0 \<and>
   render_calls (snd (POST_generate_pdf demo_io (demo_world 0))) = 0 \<and>
   credits_history (snd (POST_generate_pdf demo_io (demo_world 0))) = []"
proof -
  have sel: "filter (\<lambda>x. user_id x = ''u1'') (customers (demo_world 0)) = [demo_customer 0]"
    by (simp add: demo_defs)
  show ?thesis
    using pdf_insufficient_credits_denied [of demo_io "''u1''" demo_body demo_name demo_user
        "demo_world 0" "demo_customer 0", OF _ _ _ _ _ _ _ _ sel]
    by (simp add: demo_defs)
qed

subsection \<open>Claim C3\<close>

text \<open>
  Claim C3: whenever the render raises, no charge is applied: the \<^verbatim>\<open>customers\<close> table
  and the ledger are returned as they were, and a request that did start the render answers
  500. Equivalently, a request that changes either table has rendered successfully first.
\<close>

theorem pdf_render_failure_never_charges:
  "(render io = Inl t \<longrightarrow>
      customers (snd (POST_generate_pdf io w)) = customers w \<and>
      credits_history (snd (POST_generate_pdf io w)) = credits_history w \<and>
      (render_calls (snd (POST_generate_pdf io w)) \<noteq> render_calls w \<longrightarrow>
         status (fst (POST_generate_pdf io w)) = 500 \<and>
         payload (fst (POST_generate_pdf io w)) =
           ErrorDetailsJson ''Failed to generate PDF certificate. Please try again.''
             (error_details t))) \<and>
   (customers (snd (POST_generate_pdf io w)) \<noteq> customers w \<or>
    credits_history (snd (POST_generate_pdf io w)) \<noteq> credits_history w \<longrightarrow>
      (\<exists>b. render io = Inr b) \<and>
      render_calls (snd (POST_generate_pdf io w)) = Suc (render_calls w))"
  using POST_generate_pdf_shape [of io w]
  by (cases "render io")
    (auto simp add: generate_and_charge_fail generate_and_charge_rendered_state log_error_def
      json_response_def)

theorem pdf_render_failure_never_charges_witness:
  "render (demo_io\<lparr>render := Inl (ErrorObject ''boom'')\<rparr>) = Inl (ErrorObject ''boom'') \<and>
   render_calls (snd (POST_generate_pdf (demo_io\<lparr>render := Inl (ErrorObject ''boom'')\<rparr>)
     (demo_world 1))) \<noteq> render_calls (demo_world 1) \<and>
   customers (snd (POST_generate_pdf (demo_io\<lparr>render := Inl (ErrorObject ''boom'')\<rparr>)
     (demo_world 1))) = customers (demo_world 1) \<and>
   credits_history (snd (POST_generate_pdf (demo_io\<lparr>render := Inl (ErrorObject ''boom'')\<rparr>)
     (demo_world 1))) = credits_history (demo_world 1) \<and>
   status (fst (POST_generate_pdf (demo_io\<lparr>render := Inl (ErrorObject ''boom'')\<rparr>)
     (demo_world 1))) = 500 \<and>
   customers (snd (POST_generate_pdf demo_io (demo_world 1))) \<noteq> customers (demo_world 1) \<and>
   render demo_io = Inr ''%PDF-1.4'' \<and>
   render_calls (snd (POST_generate_pdf demo_io (demo_world 1))) = 1"
  using pdf_render_failure_never_charges
      [of "demo_io\<lparr>render := Inl (ErrorObject ''boom'')\<rparr>" "ErrorObject ''boom''" "demo_world 1"]
    pdf_render_failure_never_charges [of demo_io "ErrorObject ''boom''" "demo_world 1"]
  by (simp add: demo_defs route_defs encode_defs)

subsection \<open>Claim C4\<close>

text \<open>
  When the render succeeds, the file name can be encoded and the balance update fails, the
  answer is 200 with the rendered PDF; the failure is written to the console and neither
  table changes.
\<close>

lemma update_rejected_still_returns_pdf:
  assumes "client io = None" and "\<not> auth_error io" and "auth_user io = Some uid"
    and "json_body io = Inr body" and "nameData body = Some nd" and "userData body = Some ud"
    and "available io" and "\<not> select_error io"
    and "filter (\<lambda>x. user_id x = uid) (customers w) = [c]" and "1 \<le> credits c"
    and "render io = Inr buffer"
    and "encodeURIComponent (chinese nd @ js_literal ''_certificate.pdf'') = Inr encoded"
    and "update_error io"
  shows "status (fst (POST_generate_pdf io w)) = 200 \<and>
         content_type (fst (POST_generate_pdf io w)) = ''application/pdf'' \<and>
         payload (fst (POST_generate_pdf io w)) = PdfBytes buffer encoded \<and>
         console_error (snd (POST_generate_pdf io w)) =
           console_error w @ [''Failed to deduct credits:''] \<and>
         customers (snd (POST_generate_pdf io w)) = customers w \<and>
         credits_history (snd (POST_generate_pdf io w)) = credits_history w"
proof -
  have "POST_generate_pdf io w = generate_and_charge io w uid c nd ud"
    using assms by (intro POST_generate_pdf_entitled) simp_all
  with assms show ?thesis
    by (simp add: generate_and_charge_ok deduct_credits_failed log_error_def)
qed

text \<open>
  Claim C4: for every request in which the render succeeds and the balance update that
  follows fails, the answer is still 200 with the rendered PDF, the accounting failure
  being logged and not surfaced.

  The handler means to do so (after the failed update it goes on to build the PDF
  response), but it builds the response inside the \<^verbatim>\<open>try\<close> whose \<^verbatim>\<open>catch\<close>
  reports a failed render. For the request below the customer has 3 credits, the render
  succeeds and the balance update is rejected; the name is a lone surrogate, so
  \<^verbatim>\<open>encodeURIComponent(fileName)\<close> throws: the answer is 500 with
  \<^verbatim>\<open>Failed to generate PDF certificate\<close>, and both failures are on the console.
\<close>

theorem pdf_update_rejected_unencodable_name_answers_500:
  "render (demo_io\<lparr>json_body := Inr lone_surrogate_body, update_error := True\<rparr>) =
     Inr ''%PDF-1.4'' \<and>
   update_error (demo_io\<lparr>json_body := Inr lone_surrogate_body, update_error := True\<rparr>) \<and>
   render_calls (snd (POST_generate_pdf
     (demo_io\<lparr>json_body := Inr lone_surrogate_body, update_error := True\<rparr>) (demo_world 3))) = 1 \<and>
   fst (POST_generate_pdf
     (demo_io\<lparr>json_body := Inr lone_surrogate_body, update_error := True\<rparr>) (demo_world 3)) =
     \<lparr>status = 500, content_type = ''application/json'',
      payload = ErrorDetailsJson ''Failed to generate PDF certificate. Please try again.''
        ''URI malformed''\<rparr> \<and>
   console_error (snd (POST_generate_pdf
     (demo_io\<lparr>json_body := Inr lone_surrogate_body, update_error := True\<rparr>) (demo_world 3))) =
     [''Failed to deduct credits:'', ''PDF generation error:'']"
  by (simp add: demo_defs lone_surrogate_name_def lone_surrogate_body_def route_defs
      encode_defs)

text \<open>
  The same defect on the path without any accounting failure: the credit is deducted and
  recorded, and the answer is 500.
\<close>

lemma charged_then_unencodable_name_answers_500:
  "status (fst (POST_generate_pdf (demo_io\<lparr>json_body := Inr lone_surrogate_body\<rparr>)
     (demo_world 1))) = 500 \<and>
   map credits (filter (\<lambda>x. user_id x = ''u1'')
     (customers (snd (POST_generate_pdf (demo_io\<lparr>json_body := Inr lone_surrogate_body\<rparr>)
        (demo_world 1))))) = [0] \<and>
   length (credits_history (snd (POST_generate_pdf
     (demo_io\<lparr>json_body := Inr lone_surrogate_body\<rparr>) (demo_world 1)))) = 1"
  by (simp add: demo_defs lone_surrogate_name_def lone_surrogate_body_def route_defs
      encode_defs)

subsection \<open>Claim C10\<close>

text \<open>
  Claim C10: the ledger row is inserted only when the balance update before it reported
  success. When the update fails the ledger is returned as it was; and whenever the
  ledger has changed, the update was accepted, the \<^verbatim>\<open>customers\<close> table holds the
  decremented balance, and the ledger has grown by the one row of this charge.
\<close>

theorem pdf_ledger_row_only_after_balance_update:
  "(update_error io \<longrightarrow>
      credits_history (snd (POST_generate_pdf io w)) = credits_history w) \<and>
   (credits_history (snd (POST_generate_pdf io w)) \<noteq> credits_history w \<longrightarrow>
      \<not> update_error io \<and>
      (\<exists>uid c nd ud.
         auth_user io = Some uid \<and>
         filter (\<lambda>x. user_id x = uid) (customers w) = [c] \<and>
         customers (snd (POST_generate_pdf io w)) =
           map (\<lambda>x. if user_id x = uid
                     then x\<lparr>credits := credits c - 1, updated_at := now_iso io\<rparr> else x)
               (customers w) \<and>
         credits_history (snd (POST_generate_pdf io w)) =
           credits_history w @ [history_entry io c nd ud]))"
proof -
  have changed: "\<not> update_error io \<and>
      (\<exists>uid c nd ud.
         auth_user io = Some uid \<and>
         filter (\<lambda>x. user_id x = uid) (customers w) = [c] \<and>
         customers (snd (POST_generate_pdf io w)) =
           map (\<lambda>x. if user_id x = uid
                     then x\<lparr>credits := credits c - 1, updated_at := now_iso io\<rparr> else x)
               (customers w) \<and>
         credits_history (snd (POST_generate_pdf io w)) =
           credits_history w @ [history_entry io c nd ud])"
    if neq: "credits_history (snd (POST_generate_pdf io w)) \<noteq> credits_history w"
  proof -
    from POST_generate_pdf_shape [of io w] neq obtain uid body nd ud c where
      g: "auth_user io = Some uid" "filter (\<lambda>x. user_id x = uid) (customers w) = [c]"
        "POST_generate_pdf io w = generate_and_charge io w uid c nd ud"
      by (auto simp add: log_error_def)
    show ?thesis
    proof (cases "render io")
      case (Inl t)
      with g neq show ?thesis
        by (simp add: generate_and_charge_fail log_error_def)
    next
      case (Inr b)
      let ?w1 = "w\<lparr>render_calls := Suc (render_calls w)\<rparr>"
      from Inr g neq
      have "credits_history (deduct_credits io ?w1 uid c nd ud) \<noteq> credits_history ?w1"
        by (simp add: generate_and_charge_rendered_state)
      from deduct_credits_history [OF this] Inr g show ?thesis
        by (auto simp add: generate_and_charge_rendered_state)
    qed
  qed
  then show ?thesis by blast
qed

theorem pdf_ledger_row_only_after_balance_update_witness:
  "update_error (demo_io\<lparr>update_error := True\<rparr>) \<and>
   credits_history (snd (POST_generate_pdf (demo_io\<lparr>update_error := True\<rparr>) (demo_world 1))) =
     credits_history (demo_world 1) \<and>
   credits_history (snd (POST_generate_pdf demo_io (demo_world 1))) \<noteq>
     credits_history (demo_world 1) \<and>
   \<not> update_error demo_io \<and>
   map credits (customers (snd (POST_generate_pdf demo_io (demo_world 1)))) = [7, 0]"
  using pdf_ledger_row_only_after_balance_update
      [of "demo_io\<lparr>update_error := True\<rparr>" "demo_world 1"]
    pdf_ledger_row_only_after_balance_update [of demo_io "demo_world 1"]
  by (simp add: demo_defs route_defs encode_defs)

section \<open>Properties of the cache\<close>

subsection \<open>Claim C6\<close>

text \<open>
  Claim C6: for every key, value and lifetime \<open>t > 0\<close>, a \<^verbatim>\<open>get\<close> at the very time of
  the \<^verbatim>\<open>set\<close> returns the value (and so does any \<^verbatim>\<open>get\<close> while the elapsed time
  is at most \<open>t\<close>); once the elapsed time strictly exceeds \<open>t\<close>, \<^verbatim>\<open>get\<close> returns
  \<^verbatim>\<open>null\<close> and the entry is removed from the map, the other keys staying as they
  were.
\<close>

theorem cache_set_get_roundtrip:
  "(0 < t \<longrightarrow>
      cache_get t0 k (cache_set t0 k v (Some t) cache) =
        (Some v, cache_set t0 k v (Some t) cache)) \<and>
   (t1 - t0 \<le> t \<longrightarrow>
      cache_get t1 k (cache_set t0 k v (Some t) cache) =
        (Some v, cache_set t0 k v (Some t) cache)) \<and>
   (t < t1 - t0 \<longrightarrow>
      cache_get t1 k (cache_set t0 k v (Some t) cache) =
        (None, (cache_set t0 k v (Some t) cache)(k := None)) \<and>
      snd (cache_get t1 k (cache_set t0 k v (Some t) cache)) k = None)"
  by (simp add: cache_get_def cache_set_def)

theorem cache_set_get_roundtrip_witness:
  "(0::int) < 1000 \<and>
   fst (cache_get 5000 ''popular_names:f:3''
          (cache_set 5000 ''popular_names:f:3'' (42::nat) (Some 1000) Map.empty)) = Some 42 \<and>
   (6000::int) - 5000 \<le> 1000 \<and>
   fst (cache_get 6000 ''popular_names:f:3''
          (cache_set 5000 ''popular_names:f:3'' (42::nat) (Some 1000) Map.empty)) = Some 42 \<and>
   (1000::int) < 6001 - 5000 \<and>
   fst (cache_get 6001 ''popular_names:f:3''
          (cache_set 5000 ''popular_names:f:3'' (42::nat) (Some 1000) Map.empty)) = None \<and>
   snd (cache_get 6001 ''popular_names:f:3''
          (cache_set 5000 ''popular_names:f:3'' (42::nat) (Some 1000) Map.empty))
     ''popular_names:f:3'' = None"
  using cache_set_get_roundtrip
      [of 1000 5000 "''popular_names:f:3''" "42::nat" Map.empty 6000]
    cache_set_get_roundtrip
      [of 1000 5000 "''popular_names:f:3''" "42::nat" Map.empty 6001]
  by simp

section \<open>Properties of the error handler\<close>

lemmas classify_defs = classifyError_def createError_def no_options_def
  classification_rules_def any_of_def

subsection \<open>Claim C5\<close>

text \<open>
  Claim C5, as stated: an untyped \<^verbatim>\<open>Error\<close> is classified by ordered substring
  matching over the lowercased message and context (authentication, authorization,
  rate limit, payment, validation, network, database, external service; the first match
  wins), and a failure that matches none is of type \<^verbatim>\<open>internal\<close> with severity
  \<^verbatim>\<open>critical\<close>.

  The message \<^verbatim>\<open>boom\<close> matches no rule; its type is \<^verbatim>\<open>internal\<close>, but its severity
  is \<^verbatim>\<open>high\<close>: the default branch passes \<^verbatim>\<open>severity: ErrorSeverity.HIGH\<close>, which
  takes precedence over the default severity of the type.
\<close>

theorem classify_unmatched_severity_counterexample:
  "first_match classification_rules (toLowerCase ''boom'') [] = None \<and>
   err_type (classifyError ''boom'' None) = INTERNAL \<and>
   severity (classifyError ''boom'' None) = HIGH \<and>
   severity (classifyError ''boom'' None) \<noteq> CRITICAL"
  by (simp add: classify_defs toLowerCase_def lower_char_def)

text \<open>
  Claim C5, amended: the type that \<^verbatim>\<open>classifyError\<close> gives is the kind of the first
  rule of the ordered table (authentication, authorization, rate limit, payment,
  validation, network, database, external service) whose test holds of the lowercased
  message and context; when no rule matches, the error is of type \<^verbatim>\<open>internal\<close> with
  severity \<^verbatim>\<open>high\<close>, and retryable.
\<close>

theorem classify_first_match_wins:
  "(case first_match classification_rules (toLowerCase msg)
           (case ctx of None \<Rightarrow> [] | Some c \<Rightarrow> toLowerCase c) of
      Some k \<Rightarrow> err_type (classifyError msg ctx) = k
    | None \<Rightarrow> err_type (classifyError msg ctx) = INTERNAL \<and>
              severity (classifyError msg ctx) = HIGH \<and>
              retryable (classifyError msg ctx))"
  by (simp add: classify_defs Let_def)

theorem classify_first_match_wins_witness:
  "err_type (classifyError ''JWT expired: Access Denied, payment required'' None) =
     AUTHENTICATION \<and>
   err_type (classifyError ''Access Denied, payment required'' None) = AUTHORIZATION \<and>
   err_type (classifyError ''row is required'' (Some ''Checkout'')) = PAYMENT \<and>
   err_type (classifyError ''row is required'' (Some ''Supabase'')) = VALIDATION \<and>
   err_type (classifyError ''Something failed'' None) = EXTERNAL_SERVICE \<and>
   err_type (classifyError ''Oops'' None) = INTERNAL \<and>
   severity (classifyError ''Oops'' None) = HIGH"
proof -
  have low:
    "toLowerCase ''JWT expired: Access Denied, payment required'' =
       ''jwt expired: access denied, payment required''"
    "toLowerCase ''Access Denied, payment required'' = ''access denied, payment required''"
    "toLowerCase ''row is required'' = ''row is required''"
    "toLowerCase ''Checkout'' = ''checkout''"
    "toLowerCase ''Supabase'' = ''supabase''"
    "toLowerCase ''Something failed'' = ''something failed''"
    "toLowerCase ''Oops'' = ''oops''"
    by code_simp+
  show ?thesis
    using classify_first_match_wins [of "''JWT expired: Access Denied, payment required''" None]
      classify_first_match_wins [of "''Access Denied, payment required''" None]
      classify_first_match_wins [of "''row is required''" "Some ''Checkout''"]
      classify_first_match_wins [of "''row is required''" "Some ''Supabase''"]
      classify_first_match_wins [of "''Something failed''" None]
      classify_first_match_wins [of "''Oops''" None]
    by (simp add: low classification_rules_def any_of_def)
qed

subsection \<open>Claim C9\<close>

text \<open>
  Claim C9: the test for an error that is already typed looks at the shape only. Every
  object (plain, or an instance of \<^verbatim>\<open>Error\<close>) whose \<^verbatim>\<open>type\<close> property is a string
  and whose \<^verbatim>\<open>userMessage\<close> property is a string is returned by
  \<^verbatim>\<open>handleError\<close> as it is, without classification, whatever the string in
  \<^verbatim>\<open>type\<close> and whatever its other properties.
\<close>

theorem handleError_passes_typed_shape:
  assumes "error = JObject ps \<or> error = JErrorObject m ps"
    and "map_of ps ''type'' = Some (JString ty)"
    and "map_of ps ''userMessage'' = Some (JString um)"
  shows "isAppError error \<and> handleError error context = PassedThrough error"
  using assms by (auto simp add: handleError_def isAppError_def)

theorem handleError_passes_typed_shape_witness:
  "isAppError (JObject [(''type'', JString ''banana''), (''userMessage'', JString ''hi''),
                         (''retryable'', JString ''maybe'')]) \<and>
   handleError (JObject [(''type'', JString ''banana''), (''userMessage'', JString ''hi''),
                         (''retryable'', JString ''maybe'')]) (Some ''checkout'') =
     PassedThrough (JObject [(''type'', JString ''banana''), (''userMessage'', JString ''hi''),
                             (''retryable'', JString ''maybe'')]) \<and>
   handleError (JErrorObject ''jwt expired'' [(''type'', JString ''x''),
                                              (''userMessage'', JString [])]) None =
     PassedThrough (JErrorObject ''jwt expired'' [(''type'', JString ''x''),
                                                  (''userMessage'', JString [])])"
  using handleError_passes_typed_shape
      [of "JObject [(''type'', JString ''banana''), (''userMessage'', JString ''hi''),
                    (''retryable'', JString ''maybe'')]"
          "[(''type'', JString ''banana''), (''userMessage'', JString ''hi''),
            (''retryable'', JString ''maybe'')]" "[]" "''banana''" "''hi''" "Some ''checkout''"]
    handleError_passes_typed_shape
      [of "JErrorObject ''jwt expired'' [(''type'', JString ''x''),
                                         (''userMessage'', JString [])]"
          "[(''type'', JString ''x''), (''userMessage'', JString [])]" "''jwt expired''"
          "''x''" "[]" None]
  by simp

section \<open>Properties of the checkout route\<close>

subsection \<open>Resolution steps\<close>

lemma lower_productType_samples:
  "toLowerCase ''credits'' = ''credits''"
  "toLowerCase ''chinese-name-credits'' = ''chinese-name-credits''"
  by (simp_all add: toLowerCase_def lower_char_def)

lemma resolveFromProductId_absent:
  "\<not> truthy_string p \<Longrightarrow> resolveFromProductId subs creds p = None"
  by (simp add: resolveFromProductId_def truthy_string_def split: option.splits)

lemma resolveFromTierId_hobby:
  "resolveFromTierId (SUBSCRIPTION_TIERS env) (CREDITS_TIERS env) (Some ''tier-hobby'') =
     Some \<lparr>res_productId = env_or (CREEM_STARTER_PRODUCT_ID env) ''prod_starter_monthly'',
           res_type = Subscription, res_credits_amount = None\<rparr>"
  by (simp add: resolveFromTierId_def SUBSCRIPTION_TIERS_def)

lemma find_starter:
  "\<exists>starter. find (\<lambda>x. tier_name x = ''Starter'') (SUBSCRIPTION_TIERS env) = Some starter \<and>
     productId starter = env_or (CREEM_STARTER_PRODUCT_ID env) ''prod_starter_monthly''"
  by (simp add: SUBSCRIPTION_TIERS_def)

lemma POST_create_checkout_resolved:
  assumes "co_client io = None" and "co_user io = Some user" and "co_body io = Some body"
    and "resolve_selection env body = Inr res"
    and "truthy_string (CREEM_API_URL env)" and "truthy_string (CREEM_API_KEY env)"
    and "co_email user = Some address" and "address \<noteq> []"
  shows "snd (POST_create_checkout env io) =
           [\<lparr>call_productId = res_productId res, call_email = address,
             call_userId = co_uid user,
             call_type =
               (if (case productType body of
                      None \<Rightarrow> False
                    | Some p \<Rightarrow> p \<noteq> [] \<and> str_includes (toLowerCase p) ''credit'')
                then Credits else res_type res),
             call_credits_amount =
               (case (res_credits_amount res, credits_amount body) of
                  (Some a, None) \<Rightarrow> if a = 0 then None else Some a
                | (_, given) \<Rightarrow> given),
             call_discountCode = body_discountCode body\<rparr>]"
  using assms
  by (simp add: POST_create_checkout_def checkout_catch_def Let_def split: sum.splits)

lemma resolveFromTierId_unknown:
  assumes "case tid of None \<Rightarrow> True | Some t \<Rightarrow> t = [] \<or> t \<notin> tier_id ` set (subs @ creds)"
  shows "resolveFromTierId subs creds tid = None"
proof (cases tid)
  case None
  then show ?thesis by (simp add: resolveFromTierId_def)
next
  case (Some t)
  show ?thesis
  proof (cases "t = []")
    case True
    with Some show ?thesis by (simp add: resolveFromTierId_def)
  next
    case False
    with assms Some have "t \<notin> tier_id ` set subs" and "t \<notin> tier_id ` set creds"
      by auto
    then have "find (\<lambda>x. tier_id x = t) subs = None" and "find (\<lambda>x. tier_id x = t) creds = None"
      by (auto simp add: find_None_iff)
    with Some False show ?thesis by (simp add: resolveFromTierId_def)
  qed
qed

lemma default_credits_tier_is_standard:
  "\<exists>chosen.
     (case find featured (CREDITS_TIERS env) of
        Some f \<Rightarrow> Some f
      | None \<Rightarrow> (case CREDITS_TIERS env of [] \<Rightarrow> None | first # rest \<Rightarrow> Some first)) =
       Some chosen \<and>
     tier_name chosen = ''Standard Package'' \<and>
     productId chosen = env_or (CREEM_STANDARD_CREDITS_ID env) ''prod_standard_credits'' \<and>
     creditAmount chosen = Some 6"
  by (simp add: CREDITS_TIERS_def)

lemma pickDefaultCreditsTier_config:
  "pickDefaultCreditsTier (CREDITS_TIERS env) =
     Inr (env_or (CREEM_STANDARD_CREDITS_ID env) ''prod_standard_credits'', Some 6)"
  by (simp add: pickDefaultCreditsTier_def CREDITS_TIERS_def)

text \<open>
  The default tier in the words of the specification: the featured credits tier if there
  is one, otherwise the first credits tier.
\<close>

lemma pickDefaultCreditsTier_featured_else_first:
  "pickDefaultCreditsTier creds =
     (case (case find featured creds of
              Some f \<Rightarrow> Some f
            | None \<Rightarrow> (case creds of [] \<Rightarrow> None | first # rest \<Rightarrow> Some first)) of
        Some chosen \<Rightarrow> Inr (productId chosen, creditAmount chosen)
      | None \<Rightarrow> Inl (ErrorObject ''Cannot read properties of undefined (reading 'productId')''))"
  by (simp add: pickDefaultCreditsTier_def split: option.splits list.splits)

subsection \<open>Claim C7\<close>

text \<open>
  Claim C7, as stated: an authenticated request whose body carries
  \<^verbatim>\<open>tierId = "tier-hobby"\<close> and no \<^verbatim>\<open>productId\<close> passes the product of the Starter
  tier and the type \<^verbatim>\<open>subscription\<close> to the creation of the checkout session.

  The type is overridden by the hint of the body: with \<^verbatim>\<open>productType = "credits"\<close>
  beside the same \<^verbatim>\<open>tierId\<close>, the session is created for the Starter product with the
  type \<^verbatim>\<open>credits\<close>.
\<close>

theorem checkout_tier_hobby_credits_hint_counterexample:
  "map call_productId
     (snd (POST_create_checkout demo_env
        (demo_checkout_io
           (empty_body\<lparr>tierId := Some ''tier-hobby'', productType := Some ''credits''\<rparr>)))) =
     [''prod_live_starter''] \<and>
   map call_type
     (snd (POST_create_checkout demo_env
        (demo_checkout_io
           (empty_body\<lparr>tierId := Some ''tier-hobby'', productType := Some ''credits''\<rparr>)))) =
     [Credits]"
  by code_simp

text \<open>
  Claim C7, amended: for an authenticated request whose body carries
  \<^verbatim>\<open>tierId = "tier-hobby"\<close>, no \<^verbatim>\<open>productId\<close> (absent or empty) and no
  \<^verbatim>\<open>productType\<close> that contains \<^verbatim>\<open>credit\<close> in lower case, \<^verbatim>\<open>resolveFromTierId\<close>
  gives the product of the Starter tier with the type \<^verbatim>\<open>subscription\<close>; and when the
  two API variables are set and the user has an email address, the checkout session is
  created exactly once, with that product and the type \<^verbatim>\<open>subscription\<close>.
\<close>

theorem checkout_tier_hobby_is_starter_subscription:
  assumes "co_client io = None" and "co_user io = Some user" and "co_body io = Some body"
    and "tierId body = Some ''tier-hobby''"
    and "\<not> truthy_string (body_productId body)"
    and "\<not> (case productType body of
              None \<Rightarrow> False
            | Some p \<Rightarrow> str_includes (toLowerCase p) ''credit'')"
    and "truthy_string (CREEM_API_URL env)" and "truthy_string (CREEM_API_KEY env)"
    and "co_email user = Some address" and "address \<noteq> []"
  shows "\<exists>starter.
           find (\<lambda>x. tier_name x = ''Starter'') (SUBSCRIPTION_TIERS env) = Some starter \<and>
           resolveFromTierId (SUBSCRIPTION_TIERS env) (CREDITS_TIERS env) (tierId body) =
             Some \<lparr>res_productId = productId starter, res_type = Subscription,
                   res_credits_amount = None\<rparr> \<and>
           snd (POST_create_checkout env io) =
             [\<lparr>call_productId = productId starter, call_email = address,
               call_userId = co_uid user, call_type = Subscription,
               call_credits_amount = credits_amount body,
               call_discountCode = body_discountCode body\<rparr>]"
proof -
  let ?res = "\<lparr>res_productId = env_or (CREEM_STARTER_PRODUCT_ID env) ''prod_starter_monthly'',
      res_type = Subscription, res_credits_amount = None\<rparr>"
  from find_starter [of env] obtain starter where
    st: "find (\<lambda>x. tier_name x = ''Starter'') (SUBSCRIPTION_TIERS env) = Some starter"
      "productId starter = env_or (CREEM_STARTER_PRODUCT_ID env) ''prod_starter_monthly''"
    by blast
  have sel: "resolve_selection env body = Inr ?res"
    using assms(4,5)
    by (simp add: resolve_selection_def resolveFromProductId_absent resolveFromTierId_hobby)
  have hint: "\<not> (case productType body of
              None \<Rightarrow> False
            | Some p \<Rightarrow> p \<noteq> [] \<and> str_includes (toLowerCase p) ''credit'')"
    using assms(6) by (simp split: option.splits)
  have "snd (POST_create_checkout env io) =
          [\<lparr>call_productId = productId starter, call_email = address,
            call_userId = co_uid user, call_type = Subscription,
            call_credits_amount = credits_amount body,
            call_discountCode = body_discountCode body\<rparr>]"
    using POST_create_checkout_resolved [OF assms(1,2,3) sel assms(7,8,9,10)] hint st(2)
    by simp
  with st assms(4) show ?thesis
    by (simp add: resolveFromTierId_hobby)
qed

theorem checkout_tier_hobby_is_starter_subscription_witness:
  "snd (POST_create_checkout demo_env
          (demo_checkout_io (empty_body\<lparr>tierId := Some ''tier-hobby''\<rparr>))) =
     [\<lparr>call_productId = ''prod_live_starter'', call_email = ''lee@example.com'',
       call_userId = ''u1'', call_type = Subscription, call_credits_amount = None,
       call_discountCode = None\<rparr>]"
proof -
  let ?body = "empty_body\<lparr>tierId := Some ''tier-hobby''\<rparr>"
  let ?user = "\<lparr>co_uid = ''u1'', co_email = Some ''lee@example.com''\<rparr>"
  have "\<exists>starter.
          find (\<lambda>x. tier_name x = ''Starter'') (SUBSCRIPTION_TIERS demo_env) = Some starter \<and>
          resolveFromTierId (SUBSCRIPTION_TIERS demo_env) (CREDITS_TIERS demo_env)
            (tierId ?body) =
            Some \<lparr>res_productId = productId starter, res_type = Subscription,
                  res_credits_amount = None\<rparr> \<and>
          snd (POST_create_checkout demo_env (demo_checkout_io ?body)) =
            [\<lparr>call_productId = productId starter, call_email = ''lee@example.com'',
              call_userId = co_uid ?user, call_type = Subscription,
              call_credits_amount = credits_amount ?body,
              call_discountCode = body_discountCode ?body\<rparr>]"
    by (rule checkout_tier_hobby_is_starter_subscription [of _ ?user])
      (simp_all add: demo_checkout_io_def demo_env_def empty_body_def truthy_string_def)
  then obtain starter where
    st: "find (\<lambda>x. tier_name x = ''Starter'') (SUBSCRIPTION_TIERS demo_env) = Some starter"
    and call: "snd (POST_create_checkout demo_env (demo_checkout_io ?body)) =
            [\<lparr>call_productId = productId starter, call_email = ''lee@example.com'',
              call_userId = co_uid ?user, call_type = Subscription,
              call_credits_amount = credits_amount ?body,
              call_discountCode = body_discountCode ?body\<rparr>]"
    by blast
  from st have "productId starter = ''prod_live_starter''"
    by (auto simp add: SUBSCRIPTION_TIERS_def demo_env_def env_or_def)
  with call show ?thesis
    by (simp add: empty_body_def)
qed

subsection \<open>Claim C8\<close>

text \<open>
  Claim C8, as stated: an authenticated request with
  \<^verbatim>\<open>productType = "chinese-name-credits"\<close> and no \<^verbatim>\<open>productId\<close> or \<^verbatim>\<open>tierId\<close> that
  matches a configured tier falls back to the default credits tier (the featured one,
  otherwise the first) for the product and the amount of credits.

  A \<^verbatim>\<open>productId\<close> that matches no tier does not fall back: it is passed on as it is,
  with the type \<^verbatim>\<open>credits\<close> and no amount.
\<close>

theorem checkout_unknown_product_passed_through_counterexample:
  "''prod_unknown'' \<notin> productId ` set (SUBSCRIPTION_TIERS demo_env @ CREDITS_TIERS demo_env) \<and>
   pickDefaultCreditsTier (CREDITS_TIERS demo_env) = Inr (''prod_standard_credits'', Some 6) \<and>
   snd (POST_create_checkout demo_env
          (demo_checkout_io
             (empty_body\<lparr>body_productId := Some ''prod_unknown'',
                productType := Some ''chinese-name-credits''\<rparr>))) =
     [\<lparr>call_productId = ''prod_unknown'', call_email = ''lee@example.com'',
       call_userId = ''u1'', call_type = Credits, call_credits_amount = None,
       call_discountCode = None\<rparr>]"
  by code_simp

text \<open>
  Claim C8, amended: for an authenticated request with
  \<^verbatim>\<open>productType = "chinese-name-credits"\<close>, no \<^verbatim>\<open>productId\<close> (absent or empty) and
  a \<^verbatim>\<open>tierId\<close> that is absent, empty or the id of no configured tier, the checkout
  session is created (when the two API variables are set and the user has an email
  address) for the default credits tier: the featured credits tier if there is one,
  otherwise the first, which in this configuration is the Standard Package; the product
  is that tier's \<^verbatim>\<open>productId\<close>, the type is \<^verbatim>\<open>credits\<close>, and the amount is that
  tier's \<^verbatim>\<open>creditAmount\<close> unless the body supplies its own.
\<close>

theorem checkout_unknown_hint_falls_back_to_default_credits_tier:
  assumes "co_client io = None" and "co_user io = Some user" and "co_body io = Some body"
    and "productType body = Some ''chinese-name-credits''"
    and "\<not> truthy_string (body_productId body)"
    and "case tierId body of
           None \<Rightarrow> True
         | Some t \<Rightarrow>
             t = [] \<or> t \<notin> tier_id ` set (SUBSCRIPTION_TIERS env @ CREDITS_TIERS env)"
    and "truthy_string (CREEM_API_URL env)" and "truthy_string (CREEM_API_KEY env)"
    and "co_email user = Some address" and "address \<noteq> []"
  shows "\<exists>chosen.
           (case find featured (CREDITS_TIERS env) of
              Some f \<Rightarrow> Some f
            | None \<Rightarrow> (case CREDITS_TIERS env of [] \<Rightarrow> None | first # rest \<Rightarrow> Some first)) =
             Some chosen \<and>
           tier_name chosen = ''Standard Package'' \<and>
           snd (POST_create_checkout env io) =
             [\<lparr>call_productId = productId chosen, call_email = address,
               call_userId = co_uid user, call_type = Credits,
               call_credits_amount =
                 (case credits_amount body of
                    None \<Rightarrow> creditAmount chosen
                  | Some given \<Rightarrow> Some given),
               call_discountCode = body_discountCode body\<rparr>]"
proof -
  let ?res = "\<lparr>res_productId = env_or (CREEM_STANDARD_CREDITS_ID env) ''prod_standard_credits'',
      res_type = Credits, res_credits_amount = Some 6\<rparr>"
  from default_credits_tier_is_standard [of env] obtain chosen where
    ch: "(case find featured (CREDITS_TIERS env) of
            Some f \<Rightarrow> Some f
          | None \<Rightarrow> (case CREDITS_TIERS env of [] \<Rightarrow> None | first # rest \<Rightarrow> Some first)) =
           Some chosen"
      "tier_name chosen = ''Standard Package''"
      "productId chosen = env_or (CREEM_STANDARD_CREDITS_ID env) ''prod_standard_credits''"
      "creditAmount chosen = Some 6"
    by blast
  have sel: "resolve_selection env body = Inr ?res"
    using assms(4,5) resolveFromTierId_unknown [OF assms(6)]
    by (simp add: resolve_selection_def resolveFromProductId_absent
        pickDefaultCreditsTier_config lower_productType_samples)
  have "snd (POST_create_checkout env io) =
          [\<lparr>call_productId = productId chosen, call_email = address,
            call_userId = co_uid user, call_type = Credits,
            call_credits_amount =
              (case credits_amount body of
                 None \<Rightarrow> creditAmount chosen
               | Some given \<Rightarrow> Some given),
            call_discountCode = body_discountCode body\<rparr>]"
    using POST_create_checkout_resolved [OF assms(1,2,3) sel assms(7,8,9,10)] ch(3,4) assms(4)
    by (simp add: lower_productType_samples split: option.splits)
  with ch show ?thesis by blast
qed

theorem checkout_unknown_hint_falls_back_to_default_credits_tier_witness:
  "snd (POST_create_checkout demo_env
          (demo_checkout_io
             (empty_body\<lparr>tierId := Some ''tier-gold'',
                productType := Some ''chinese-name-credits''\<rparr>))) =
     [\<lparr>call_productId = ''prod_standard_credits'', call_email = ''lee@example.com'',
       call_userId = ''u1'', call_type = Credits, call_credits_amount = Some 6,
       call_discountCode = None\<rparr>]"
proof -
  let ?body = "empty_body\<lparr>tierId := Some ''tier-gold'',
     productType := Some ''chinese-name-credits''\<rparr>"
  let ?user = "\<lparr>co_uid = ''u1'', co_email = Some ''lee@example.com''\<rparr>"
  have "\<exists>chosen.
           (case find featured (CREDITS_TIERS demo_env) of
              Some f \<Rightarrow> Some f
            | None \<Rightarrow>
                (case CREDITS_TIERS demo_env of [] \<Rightarrow> None | first # rest \<Rightarrow> Some first)) =
             Some chosen \<and>
           tier_name chosen = ''Standard Package'' \<and>
           snd (POST_create_checkout demo_env (demo_checkout_io ?body)) =
             [\<lparr>call_productId = productId chosen, call_email = ''lee@example.com'',
               call_userId = co_uid ?user, call_type = Credits,
               call_credits_amount =
                 (case credits_amount ?body of
                    None \<Rightarrow> creditAmount chosen
                  | Some given \<Rightarrow> Some given),
               call_discountCode = body_discountCode ?body\<rparr>]"
    by (rule checkout_unknown_hint_falls_back_to_default_credits_tier [of _ ?user])
      (simp_all add: demo_checkout_io_def demo_env_def empty_body_def truthy_string_def
        SUBSCRIPTION_TIERS_def CREDITS_TIERS_def)
  then obtain chosen where
    ch: "(case find featured (CREDITS_TIERS demo_env) of
              Some f \<Rightarrow> Some f
            | None \<Rightarrow>
                (case CREDITS_TIERS demo_env of [] \<Rightarrow> None | first # rest \<Rightarrow> Some first)) =
             Some chosen"
    and call: "snd (POST_create_checkout demo_env (demo_checkout_io ?body)) =
             [\<lparr>call_productId = productId chosen, call_email = ''lee@example.com'',
               call_userId = co_uid ?user, call_type = Credits,
               call_credits_amount =
                 (case credits_amount ?body of
                    None \<Rightarrow> creditAmount chosen
                  | Some given \<Rightarrow> Some given),
               call_discountCode = body_discountCode ?body\<rparr>]"
    by blast
  from ch have "productId chosen = ''prod_standard_credits'' \<and> creditAmount chosen = Some 6"
    by (auto simp add: CREDITS_TIERS_def demo_env_def env_or_def)
  with call show ?thesis
    by (simp add: empty_body_def)
qed

end
